theory Spec2Isabelle
  imports Main "HOL-Library.AList" "HOL-Library.Multiset"
begin

section \<open>Data model\<close>

text \<open>
  The numeric identifiers of the room server (\<^verbatim>\<open>types.EventTypeNID\<close>,
  \<^verbatim>\<open>types.EventStateKeyNID\<close>, \<^verbatim>\<open>types.EventNID\<close>) are 64-bit integers in Go. The
  code only copies them and compares them (with each other and with 0), so they are
  modelled as \<^typ>\<open>int\<close>.

  \<^verbatim>\<open>types.StateEntry\<close> and \<^verbatim>\<open>stateChange\<close> both embed \<^verbatim>\<open>types.StateKeyTuple\<close>; the
  embedding is a record extension, so that the promoted fields
  (\<^verbatim>\<open>c.EventTypeNID\<close>, \<^verbatim>\<open>change.EventStateKeyNID\<close>) read as in the source.
\<close>

record StateKeyTuple =
  EventTypeNID :: int
  EventStateKeyNID :: int

record StateEntry = StateKeyTuple +
  EventNID :: int

record stateChange = StateKeyTuple +
  removedEventNID :: int
  addedEventNID :: int

text \<open>The selector \<^verbatim>\<open>x.StateKeyTuple\<close> of a struct that embeds a StateKeyTuple.\<close>

definition tupleOf :: "'a StateKeyTuple_scheme \<Rightarrow> StateKeyTuple" where
  "tupleOf x = \<lparr>EventTypeNID = EventTypeNID x, EventStateKeyNID = EventStateKeyNID x\<rparr>"

text \<open>The composite literal \<^verbatim>\<open>stateChange{tuple, removed, added}\<close>.\<close>

definition mkStateChange :: "StateKeyTuple \<Rightarrow> int \<Rightarrow> int \<Rightarrow> stateChange" where
  "mkStateChange t r a =
     \<lparr>EventTypeNID = EventTypeNID t, EventStateKeyNID = EventStateKeyNID t,
      removedEventNID = r, addedEventNID = a\<rparr>"

section \<open>The change pairer\<close>

text \<open>
  \<^verbatim>\<open>tuples\<close> is a Go map from StateKeyTuple to stateChange. It is modelled as an
  association list with distinct keys: \<^const>\<open>map_of\<close> is the lookup
  \<^verbatim>\<open>tuples[k]\<close> and \<^const>\<open>AList.update\<close> is the store \<^verbatim>\<open>tuples[k] = v\<close>.
\<close>

type_synonym tuples = "(StateKeyTuple \<times> stateChange) list"

text \<open>The body of the first loop of \<^verbatim>\<open>pairUpChanges\<close> (lines 259-268).\<close>

definition addStep :: "tuples \<Rightarrow> StateEntry \<Rightarrow> tuples" where
  "addStep tuples add =
     (case map_of tuples (tupleOf add) of
        Some change \<Rightarrow>
          AList.update (tupleOf add) (change\<lparr>addedEventNID := EventNID add\<rparr>) tuples
      | None \<Rightarrow>
          AList.update (tupleOf add) (mkStateChange (tupleOf add) 0 (EventNID add)) tuples)"

fun addLoop :: "StateEntry list \<Rightarrow> tuples \<Rightarrow> tuples" where
  "addLoop [] tuples = tuples"
| "addLoop (add # added) tuples = addLoop added (addStep tuples add)"

text \<open>The body of the second loop (lines 271-280).\<close>

definition removeStep :: "tuples \<Rightarrow> StateEntry \<Rightarrow> tuples" where
  "removeStep tuples remove =
     (case map_of tuples (tupleOf remove) of
        Some change \<Rightarrow>
          AList.update (tupleOf remove) (change\<lparr>removedEventNID := EventNID remove\<rparr>) tuples
      | None \<Rightarrow>
          AList.update (tupleOf remove)
            (mkStateChange (tupleOf remove) (EventNID remove) 0) tuples)"

fun removeLoop :: "StateEntry list \<Rightarrow> tuples \<Rightarrow> tuples" where
  "removeLoop [] tuples = tuples"
| "removeLoop (remove # removed) tuples = removeLoop removed (removeStep tuples remove)"

text \<open>
  The last loop ranges over the map and appends every value to \<^verbatim>\<open>changes\<close>. Go does
  not specify the order in which \<^verbatim>\<open>range\<close> visits a map, and it may differ from one
  run to the next. The model takes that order as the parameter \<open>ord\<close>, a ranking of
  the keys: the entries are visited by increasing rank. Whatever \<open>ord\<close> is, the
  visit is a permutation of the entries (\<open>mset_rangeMap\<close> below), and every
  enumeration of the entries is the visit of some ranking (\<open>rangeMap_any_order\<close>).
\<close>

definition rangeMap :: "(StateKeyTuple \<Rightarrow> nat) \<Rightarrow> tuples \<Rightarrow> stateChange list" where
  "rangeMap ord tuples = map snd (sort_key (\<lambda>kv. ord (fst kv)) tuples)"

definition pairUpChanges ::
  "(StateKeyTuple \<Rightarrow> nat) \<Rightarrow> StateEntry list \<Rightarrow> StateEntry list \<Rightarrow> stateChange list" where
  "pairUpChanges ord removed added = rangeMap ord (removeLoop removed (addLoop added []))"

text \<open>
  What the contract of the pairer calls the event identifier of a side for a tuple:
  the EventNID of the entry of that side with the tuple, and 0 when the side has no
  such entry. Should a side hold several entries with one tuple, the last one counts.
\<close>

definition sideNID :: "StateEntry list \<Rightarrow> StateKeyTuple \<Rightarrow> int" where
  "sideNID side t =
     (case filter (\<lambda>e. tupleOf e = t) side of
        [] \<Rightarrow> 0
      | e # es \<Rightarrow> EventNID (last (e # es)))"

section \<open>Events, errors and output records\<close>

text \<open>
  A Go \<^verbatim>\<open>error\<close> value is either the one the code builds itself with
  \<^verbatim>\<open>errors.New\<close>, or one handed back by a collaborator (the event store, the
  update handle, the parser of an event's content).
\<close>

datatype error = ErrorsNew string | Foreign string

text \<open>
  A panic ends the call without a return value. The code can panic in two ways: by
  dereferencing a nil pointer, and by the explicit \<^verbatim>\<open>panic\<close> of line 130, whose
  message quotes the offending membership value.
\<close>

datatype panic = NilDereference | MembershipNotAllowed string

datatype 'a run = Returns 'a | Panics panic

text \<open>
  \<^verbatim>\<open>gomatrixserverlib.Event\<close> belongs to a library outside the repository. An event is
  modelled by what the code reads from it: the result of \<^verbatim>\<open>Membership()\<close> (the
  membership string of the content, or the error of parsing it),
  \<^verbatim>\<open>Sender()\<close>, \<^verbatim>\<open>EventID()\<close> and \<^verbatim>\<open>StateKey()\<close>, a pointer that is nil for an event
  without state key.
\<close>

record Event =
  Membership :: "error + string"
  Sender :: string
  EventID :: string
  StateKey :: "string option"

text \<open>The membership constants of the library.\<close>

definition Invite :: string where "Invite = ''invite''"
definition Join :: string where "Join = ''join''"
definition Leave :: string where "Leave = ''leave''"
definition Ban :: string where "Ban = ''ban''"

type_synonym RoomVersion = string

text \<open>\<^verbatim>\<open>add.Headered(roomVersion)\<close>: the event together with the version of its room.\<close>

datatype HeaderedEvent = Headered Event RoomVersion

text \<open>\<^verbatim>\<open>types.Event\<close>: an event with its numeric identifier.\<close>

record types_Event =
  EventNID :: int
  Event :: Event

text \<open>
  The output records of package \<^verbatim>\<open>api\<close>. An \<^verbatim>\<open>api.OutputEvent\<close> holds a type tag and
  one pointer per kind of payload; the struct literals of the code set the tag and
  one pointer and leave the other nil.
\<close>

datatype OutputType = OutputTypeNewInviteEvent | OutputTypeRetireInviteEvent

record OutputNewInviteEvent =
  Event :: HeaderedEvent
  RoomVersion :: RoomVersion

record OutputRetireInviteEvent =
  EventID :: string
  Membership :: string
  RetiredByEventID :: string
  TargetUserID :: string

record OutputEvent =
  Type :: OutputType
  NewInviteEvent :: "OutputNewInviteEvent option"
  RetireInviteEvent :: "OutputRetireInviteEvent option"

section \<open>The collaborators\<close>

text \<open>
  The update handle (\<^verbatim>\<open>types.MembershipUpdater\<close>), the room transaction
  (\<^verbatim>\<open>types.RoomRecentEventsUpdater\<close>) and the event store (\<^verbatim>\<open>storage.Database\<close>) are
  interfaces. Each is a record of its methods over the state \<open>'s\<close> of the store
  behind them: a method that writes returns the new state with its result, a method
  that only reads (\<^verbatim>\<open>IsJoin\<close>, \<^verbatim>\<open>IsLeave\<close>, \<^verbatim>\<open>RoomVersion\<close>, \<^verbatim>\<open>Events\<close>) returns its
  result alone. A Go result pair \<^verbatim>\<open>(v, err)\<close> of a collaborator is the sum
  \<open>error + v\<close>, as the code never reads \<^verbatim>\<open>v\<close> when \<^verbatim>\<open>err\<close> is not nil.
\<close>

record 's MembershipUpdater =
  IsJoin :: "'s \<Rightarrow> bool"
  IsLeave :: "'s \<Rightarrow> bool"
  SetToInvite :: "Event \<Rightarrow> 's \<Rightarrow> (error + bool) \<times> 's"
  SetToJoin :: "string \<Rightarrow> string \<Rightarrow> bool \<Rightarrow> 's \<Rightarrow> (error + string list) \<times> 's"
  SetToLeave :: "string \<Rightarrow> string \<Rightarrow> 's \<Rightarrow> (error + string list) \<times> 's"

record 's RoomRecentEventsUpdater =
  MembershipUpdater :: "int \<Rightarrow> 's \<Rightarrow> (error + 's MembershipUpdater) \<times> 's"
  RoomVersion :: "'s \<Rightarrow> RoomVersion"

record 's Database =
  Events :: "int list \<Rightarrow> 's \<Rightarrow> error + types_Event list"

text \<open>
  What a function of the code returns: the Go pair of the output records and the
  error (\<open>None\<close> for nil), with the state of the store after the call. A nil slice
  is the empty list.
\<close>

type_synonym 's outcome = "((OutputEvent list \<times> error option) \<times> 's) run"

section \<open>The transition handlers\<close>

text \<open>
  \<^verbatim>\<open>add\<close> is a pointer to an event: \<open>None\<close> is the nil pointer, and reading through
  it panics.

  \<^verbatim>\<open>updateToInviteMembership\<close> (lines 136-164).
\<close>

definition updateToInviteMembership ::
  "'s MembershipUpdater \<Rightarrow> Event option \<Rightarrow> OutputEvent list \<Rightarrow> RoomVersion \<Rightarrow> 's \<Rightarrow> 's outcome" where
  "updateToInviteMembership mu add updates roomVersion s =
     (case add of
        None \<Rightarrow> Panics NilDereference
      | Some a \<Rightarrow>
          (case SetToInvite mu a s of
             (Inl err, s') \<Rightarrow> Returns (([], Some err), s')
           | (Inr needsSending, s') \<Rightarrow>
               if needsSending
               then Returns
                 ((updates @
                   [\<lparr>Type = OutputTypeNewInviteEvent,
                     NewInviteEvent =
                       Some \<lparr>OutputNewInviteEvent.Event = Headered a roomVersion,
                             OutputNewInviteEvent.RoomVersion = roomVersion\<rparr>,
                     RetireInviteEvent = None\<rparr>], None), s')
               else Returns ((updates, None), s')))"

text \<open>
  The loop over \<^verbatim>\<open>retired\<close> of lines 187-198 and of lines 219-230: the two differ in
  the membership they write only, \<^verbatim>\<open>gomatrixserverlib.Join\<close> in the first and
  \<^verbatim>\<open>newMembership\<close> in the second. Every iteration reads \<^verbatim>\<open>*add.StateKey()\<close>.
\<close>

fun retireLoop :: "Event \<Rightarrow> string \<Rightarrow> string list \<Rightarrow> OutputEvent list \<Rightarrow> OutputEvent list run" where
  "retireLoop a membership [] updates = Returns updates"
| "retireLoop a membership (eventID # retired) updates =
     (case StateKey a of
        None \<Rightarrow> Panics NilDereference
      | Some target \<Rightarrow>
          retireLoop a membership retired
            (updates @
             [\<lparr>Type = OutputTypeRetireInviteEvent,
               NewInviteEvent = None,
               RetireInviteEvent =
                 Some \<lparr>OutputRetireInviteEvent.EventID = eventID,
                       OutputRetireInviteEvent.Membership = membership,
                       RetiredByEventID = Event.EventID a,
                       TargetUserID = target\<rparr>\<rparr>]))"

text \<open>\<^verbatim>\<open>updateToJoinMembership\<close> (lines 166-200).\<close>

definition updateToJoinMembership ::
  "'s MembershipUpdater \<Rightarrow> Event option \<Rightarrow> OutputEvent list \<Rightarrow> 's \<Rightarrow> 's outcome" where
  "updateToJoinMembership mu add updates s =
     (if IsJoin mu s
      then
        (case add of
           None \<Rightarrow> Panics NilDereference
         | Some a \<Rightarrow>
             (case SetToJoin mu (Sender a) (Event.EventID a) True s of
                (Inl err, s') \<Rightarrow> Returns (([], Some err), s')
              | (Inr _, s') \<Rightarrow> Returns ((updates, None), s')))
      else
        (case add of
           None \<Rightarrow> Panics NilDereference
         | Some a \<Rightarrow>
             (case SetToJoin mu (Sender a) (Event.EventID a) False s of
                (Inl err, s') \<Rightarrow> Returns (([], Some err), s')
              | (Inr retired, s') \<Rightarrow>
                  (case retireLoop a Join retired updates of
                     Panics p \<Rightarrow> Panics p
                   | Returns updates' \<Rightarrow> Returns ((updates', None), s')))))"

text \<open>\<^verbatim>\<open>updateToLeaveMembership\<close> (lines 202-232).\<close>

definition updateToLeaveMembership ::
  "'s MembershipUpdater \<Rightarrow> Event option \<Rightarrow> string \<Rightarrow> OutputEvent list \<Rightarrow> 's \<Rightarrow> 's outcome" where
  "updateToLeaveMembership mu add newMembership updates s =
     (if IsLeave mu s
      then Returns ((updates, None), s)
      else
        (case add of
           None \<Rightarrow> Panics NilDereference
         | Some a \<Rightarrow>
             (case SetToLeave mu (Sender a) (Event.EventID a) s of
                (Inl err, s') \<Rightarrow> Returns (([], Some err), s')
              | (Inr retired, s') \<Rightarrow>
                  (case retireLoop a newMembership retired updates of
                     Panics p \<Rightarrow> Panics p
                   | Returns updates' \<Rightarrow> Returns ((updates', None), s')))))"

section \<open>The membership resolver\<close>

text \<open>
  \<^verbatim>\<open>updateMembership\<close> (lines 82-134). The membership of a side defaults to
  \<^verbatim>\<open>gomatrixserverlib.Leave\<close> and is overwritten from the event when the pointer is
  not nil (lines 89-103).
\<close>

definition updateMembership ::
  "'s RoomRecentEventsUpdater \<Rightarrow> int \<Rightarrow> Event option \<Rightarrow> Event option \<Rightarrow> OutputEvent list \<Rightarrow>
   's \<Rightarrow> 's outcome" where
  "updateMembership updater targetUserNID remove add updates s =
     (case (case remove of None \<Rightarrow> Inr Leave | Some re \<Rightarrow> Event.Membership re) of
        Inl err \<Rightarrow> Returns (([], Some err), s)
      | Inr oldMembership \<Rightarrow>
          (case (case add of None \<Rightarrow> Inr Leave | Some ae \<Rightarrow> Event.Membership ae) of
             Inl err \<Rightarrow> Returns (([], Some err), s)
           | Inr newMembership \<Rightarrow>
               if oldMembership = newMembership \<and> newMembership \<noteq> Join
               then Returns ((updates, None), s)
               else if add = None
               then Returns ((updates, Some (ErrorsNew ''add should not be nil'')), s)
               else
                 (case MembershipUpdater updater targetUserNID s of
                    (Inl err, s') \<Rightarrow> Returns (([], Some err), s')
                  | (Inr mu, s') \<Rightarrow>
                      if newMembership = Invite
                      then updateToInviteMembership mu add updates
                             (RoomRecentEventsUpdater.RoomVersion updater s') s'
                      else if newMembership = Join
                      then updateToJoinMembership mu add updates s'
                      else if newMembership = Leave \<or> newMembership = Ban
                      then updateToLeaveMembership mu add newMembership updates s'
                      else Panics (MembershipNotAllowed newMembership))))"

text \<open>
  \<^verbatim>\<open>membershipChanges\<close> (lines 235-244). \<^verbatim>\<open>types.MRoomMemberNID\<close>, the numeric
  identifier of the membership event type, is declared outside these sources and is
  the parameter \<open>mRoomMemberNID\<close>.
\<close>

definition membershipChanges ::
  "int \<Rightarrow> (StateKeyTuple \<Rightarrow> nat) \<Rightarrow> StateEntry list \<Rightarrow> StateEntry list \<Rightarrow> stateChange list" where
  "membershipChanges mRoomMemberNID ord removed added =
     filter (\<lambda>c. EventTypeNID c = mRoomMemberNID) (pairUpChanges ord removed added)"

text \<open>The first loop of \<^verbatim>\<open>updateMemberships\<close> (lines 40-47).\<close>

fun collectEventNIDs :: "stateChange list \<Rightarrow> int list \<Rightarrow> int list" where
  "collectEventNIDs [] eventNIDs = eventNIDs"
| "collectEventNIDs (change # changes) eventNIDs =
     (let eventNIDs1 =
            (if addedEventNID change \<noteq> 0 then eventNIDs @ [addedEventNID change]
             else eventNIDs);
          eventNIDs2 =
            (if removedEventNID change \<noteq> 0 then eventNIDs1 @ [removedEventNID change]
             else eventNIDs1)
      in collectEventNIDs changes eventNIDs2)"

text \<open>
  Modelled from the spec: \<^verbatim>\<open>eventMap(events).lookup\<close>, a method of this package that
  is declared outside these sources. The spec (4.3, step 3) says that it resolves an
  event body by its identifier and that "a missing identifier yields a nil body, not
  an error".
\<close>

definition lookup :: "types_Event list \<Rightarrow> int \<Rightarrow> types_Event option" where
  "lookup events eventNID = find (\<lambda>ev. types_Event.EventNID ev = eventNID) events"

text \<open>Lines 63-68 and 69-74: the event of one side of a change, nil when there is none.\<close>

definition sideEvent :: "types_Event list \<Rightarrow> int \<Rightarrow> Event option" where
  "sideEvent events eventNID =
     (if eventNID \<noteq> 0
      then (case lookup events eventNID of
              Some ev \<Rightarrow> Some (types_Event.Event ev)
            | None \<Rightarrow> None)
      else None)"

text \<open>The second loop of \<^verbatim>\<open>updateMemberships\<close> (lines 59-79).\<close>

fun changesLoop ::
  "'s RoomRecentEventsUpdater \<Rightarrow> types_Event list \<Rightarrow> stateChange list \<Rightarrow> OutputEvent list \<Rightarrow>
   's \<Rightarrow> 's outcome" where
  "changesLoop updater events [] updates s = Returns ((updates, None), s)"
| "changesLoop updater events (change # changes) updates s =
     (case updateMembership updater (EventStateKeyNID change)
             (sideEvent events (removedEventNID change))
             (sideEvent events (addedEventNID change)) updates s of
        Panics p \<Rightarrow> Panics p
      | Returns ((updates', Some err), s') \<Rightarrow> Returns (([], Some err), s')
      | Returns ((updates', None), s') \<Rightarrow> changesLoop updater events changes updates' s')"

text \<open>\<^verbatim>\<open>updateMemberships\<close> (lines 32-80).\<close>

definition updateMemberships ::
  "int \<Rightarrow> (StateKeyTuple \<Rightarrow> nat) \<Rightarrow> 's Database \<Rightarrow> 's RoomRecentEventsUpdater \<Rightarrow>
   StateEntry list \<Rightarrow> StateEntry list \<Rightarrow> 's \<Rightarrow> 's outcome" where
  "updateMemberships mRoomMemberNID ord db updater removed added s =
     (let changes = membershipChanges mRoomMemberNID ord removed added;
          eventNIDs = collectEventNIDs changes []
      in case Events db eventNIDs s of
           Inl err \<Rightarrow> Returns (([], Some err), s)
         | Inr events \<Rightarrow> changesLoop updater events changes [] s)"

section \<open>Choosing the storage engine\<close>

text \<open>
  \<^verbatim>\<open>NewDatabase\<close> of \<^verbatim>\<open>federationsender/storage/storage.go\<close> (lines 28-41).
  \<^verbatim>\<open>url.Parse\<close> belongs to the Go standard library and is the parameter \<open>parse\<close>; of
  the URL it returns the code reads the scheme only. The constructors of the two
  engines are declared outside these sources. Every branch returns the result of
  one constructor call as it is, so the model returns that call.
\<close>

record URL =
  Scheme :: string

datatype 'p engineCall =
  Sqlite3NewDatabase string
| PostgresNewDatabase string 'p

definition NewDatabase :: "(string \<Rightarrow> error + URL) \<Rightarrow> string \<Rightarrow> 'p \<Rightarrow> 'p engineCall" where
  "NewDatabase parse dataSourceName dbProperties =
     (case parse dataSourceName of
        Inl err \<Rightarrow> PostgresNewDatabase dataSourceName dbProperties
      | Inr uri \<Rightarrow>
          if Scheme uri = ''file'' then Sqlite3NewDatabase dataSourceName
          else if Scheme uri = ''postgres'' then PostgresNewDatabase dataSourceName dbProperties
          else PostgresNewDatabase dataSourceName dbProperties)"

section \<open>A participant store that follows the spec\<close>

text \<open>
  The implementations of the update handle live in the storage packages of the
  repository, outside these sources. What a handle answers on a second call is
  decided there, so the statements about repeated transitions are made against the
  handle below.

  A participant has a membership classification, the identifiers of the invites that
  are outstanding (recorded and not retired), and the identifier of the event that
  currently defines the membership. The store maps the numeric identifier of a
  participant to this record; a participant never touched is \<open>fresh\<close>.
\<close>

datatype classification = Invited | Joined | LeftOrBanned

record participant =
  current :: classification
  outstanding :: "string list"
  reference :: string

type_synonym store = "int \<Rightarrow> participant"

definition fresh :: store where
  "fresh = (\<lambda>_. \<lparr>current = LeftOrBanned, outstanding = [], reference = []\<rparr>)"

text \<open>
  Modelled from the spec: "set to invite" of the participant update handle, which
  is declared outside these sources. The spec (4.3a) says that it "records the
  invite as the participant's current membership only if not already current, and
  reports whether this is a new invite (as opposed to replaying the same
  already-recorded invite)".
\<close>

definition setToInvite :: "int \<Rightarrow> Event \<Rightarrow> store \<Rightarrow> (error + bool) \<times> store" where
  "setToInvite nid event s =
     (if Event.EventID event \<in> set (outstanding (s nid))
      then (Inr False, s)
      else (Inr True,
            s(nid := (s nid)\<lparr>current := Invited,
                             outstanding := outstanding (s nid) @ [Event.EventID event],
                             reference := Event.EventID event\<rparr>)))"

text \<open>
  Modelled from the spec: "set to join" of the participant update handle, which is
  declared outside these sources. The spec (4.3b) says that with retirement
  disabled it updates "only the canonical event reference", and that with
  retirement enabled it "atomically marks the participant joined and returns the
  set of outstanding invite event identifiers it retired".
\<close>

definition setToJoin ::
  "int \<Rightarrow> string \<Rightarrow> string \<Rightarrow> bool \<Rightarrow> store \<Rightarrow> (error + string list) \<times> store" where
  "setToJoin nid sender eventID suppressRetirement s =
     (if suppressRetirement
      then (Inr [], s(nid := (s nid)\<lparr>reference := eventID\<rparr>))
      else (Inr (outstanding (s nid)),
            s(nid := (s nid)\<lparr>current := Joined, outstanding := [], reference := eventID\<rparr>)))"

text \<open>
  Modelled from the spec: "set to leave" of the participant update handle, which
  is declared outside these sources. The spec (4.3c) says that it "atomically marks
  the participant left/banned and returns retired outstanding invite identifiers".
\<close>

definition setToLeave ::
  "int \<Rightarrow> string \<Rightarrow> string \<Rightarrow> store \<Rightarrow> (error + string list) \<times> store" where
  "setToLeave nid sender eventID s =
     (Inr (outstanding (s nid)),
      s(nid := (s nid)\<lparr>current := LeftOrBanned, outstanding := [], reference := eventID\<rparr>))"

text \<open>
  Modelled from the spec: the participant update handle and the factory that opens
  it, both declared outside these sources. The spec (3 and 6) says that the handle
  "exposes the current committed membership classification (is-join / is-leave)"
  and that the factory "exposes the room's protocol version".
\<close>

definition handle :: "int \<Rightarrow> store MembershipUpdater" where
  "handle nid =
     \<lparr>IsJoin = (\<lambda>s. current (s nid) = Joined),
      IsLeave = (\<lambda>s. current (s nid) = LeftOrBanned),
      SetToInvite = setToInvite nid,
      SetToJoin = setToJoin nid,
      SetToLeave = setToLeave nid\<rparr>"

definition roomUpdater :: "RoomVersion \<Rightarrow> store RoomRecentEventsUpdater" where
  "roomUpdater roomVersion =
     \<lparr>MembershipUpdater = (\<lambda>nid s. (Inr (handle nid), s)),
      RoomRecentEventsUpdater.RoomVersion = (\<lambda>s. roomVersion)\<rparr>"

section \<open>The membership field of an event body\<close>

text \<open>
  \<^verbatim>\<open>Membership()\<close> is a method of \<^verbatim>\<open>gomatrixserverlib.Event\<close>, declared outside these
  sources: what it answers for a given event body is decided there. The content of
  an event body either has no membership field, or has one that is not well formed,
  or has one with a string value.
\<close>

datatype membershipField = FieldAbsent | FieldMalformed | FieldValue string

text \<open>
  Modelled from the spec: the error kind \<^verbatim>\<open>MembershipParseError\<close>, which no
  declaration under these sources names. The spec (7) lists it as the error of "an
  event body [that] lacks a well-formed membership value".
\<close>

definition MembershipParseError :: error where
  "MembershipParseError = Foreign ''MembershipParseError''"

text \<open>
  Modelled from the spec: \<^verbatim>\<open>Membership()\<close> of an event, declared outside these
  sources. The spec (4.3, step 4) says that the classification "fails with
  MembershipParseError if an event body exists but its membership field is
  absent/malformed"; a well-formed field is the declared membership value.
\<close>

definition readMembership :: "membershipField \<Rightarrow> error + string" where
  "readMembership field =
     (case field of
        FieldAbsent \<Rightarrow> Inl MembershipParseError
      | FieldMalformed \<Rightarrow> Inl MembershipParseError
      | FieldValue membership \<Rightarrow> Inr membership)"

text \<open>
  Modelled from the spec: the event that the event store holds for an event body,
  whose loading is declared outside these sources. The spec (4.3, steps 3 and 4)
  says that the resolver "extracts the declared membership value" from the loaded
  body; sender, identifier and state key are those of the body.
\<close>

definition eventOfBody :: "membershipField \<Rightarrow> string \<Rightarrow> string \<Rightarrow> string option \<Rightarrow> Event" where
  "eventOfBody field sender eventID stateKey =
     \<lparr>Event.Membership = readMembership field, Sender = sender, Event.EventID = eventID,
      StateKey = stateKey\<rparr>"

section \<open>The two notifications\<close>

text \<open>
  The "new invite" record for an event in a room of a given version, and the "retire
  invite" record for a retired invite, the membership that retires it, the event
  that retires it and the target participant: the values of the struct literals of
  lines 154-161, 188-197 and 220-229.
\<close>

definition newInvite :: "Event \<Rightarrow> RoomVersion \<Rightarrow> OutputEvent" where
  "newInvite a roomVersion =
     \<lparr>Type = OutputTypeNewInviteEvent,
      NewInviteEvent =
        Some \<lparr>OutputNewInviteEvent.Event = Headered a roomVersion,
              OutputNewInviteEvent.RoomVersion = roomVersion\<rparr>,
      RetireInviteEvent = None\<rparr>"

definition retireInvite :: "string \<Rightarrow> string \<Rightarrow> string \<Rightarrow> string \<Rightarrow> OutputEvent" where
  "retireInvite eventID membership retiredBy target =
     \<lparr>Type = OutputTypeRetireInviteEvent,
      NewInviteEvent = None,
      RetireInviteEvent =
        Some \<lparr>OutputRetireInviteEvent.EventID = eventID,
              OutputRetireInviteEvent.Membership = membership,
              RetiredByEventID = retiredBy,
              TargetUserID = target\<rparr>\<rparr>"

section \<open>Example values\<close>

text \<open>
  The participant \<^verbatim>\<open>@a:hs\<close> with numeric identifier 7, in a room of version 5 whose
  membership event type has the numeric identifier 5: an invite E1, a join E2, a
  leave E3, a ban E4, an event E5 with a membership outside the four values and an
  event E6 whose content has no readable membership.
\<close>

definition memberEvent :: "string \<Rightarrow> string \<Rightarrow> Event" where
  "memberEvent eventID membership =
     \<lparr>Event.Membership = Inr membership, Sender = ''@a:hs'', Event.EventID = eventID,
      StateKey = Some ''@a:hs''\<rparr>"

definition E1 :: Event where "E1 = memberEvent ''$E1'' Invite"
definition E2 :: Event where "E2 = memberEvent ''$E2'' Join"
definition E3 :: Event where "E3 = memberEvent ''$E3'' Leave"
definition E4 :: Event where "E4 = memberEvent ''$E4'' Ban"
definition E5 :: Event where "E5 = memberEvent ''$E5'' ''knock''"

definition E6 :: Event where
  "E6 = \<lparr>Event.Membership = Inl (Foreign ''missing membership key''), Sender = ''@a:hs'',
         Event.EventID = ''$E6'', StateKey = Some ''@a:hs''\<rparr>"

text \<open>
  Two events of the participant whose bodies lack a well-formed membership: E7 has
  no membership field and the field of E8 is not well formed.
\<close>

definition E7 :: Event where
  "E7 = eventOfBody FieldAbsent ''@a:hs'' ''$E7'' (Some ''@a:hs'')"

definition E8 :: Event where
  "E8 = eventOfBody FieldMalformed ''@a:hs'' ''$E8'' (Some ''@a:hs'')"

definition memberEntry :: "int \<Rightarrow> int \<Rightarrow> StateEntry" where
  "memberEntry stateKeyNID eventNID =
     \<lparr>EventTypeNID = 5, EventStateKeyNID = stateKeyNID, StateEntry.EventNID = eventNID\<rparr>"

text \<open>
  Stores in which the participant 7 holds the outstanding invite E1, has joined by
  E2, and has left or was banned by a given event.
\<close>

definition invited :: store where
  "invited = fresh(7 := \<lparr>current = Invited, outstanding = [''$E1''], reference = ''$E1''\<rparr>)"

definition joined :: store where
  "joined = fresh(7 := \<lparr>current = Joined, outstanding = [], reference = ''$E2''\<rparr>)"

definition gone :: "string \<Rightarrow> store" where
  "gone eventID = fresh(7 := \<lparr>current = LeftOrBanned, outstanding = [], reference = eventID\<rparr>)"

text \<open>
  Further collaborators. \<open>logUpdater\<close> keeps a log of the calls that write: its
  state is the list of their names. \<open>flakyUpdater\<close> opens a handle that fails
  every call that can fail with a given error; \<open>isJoin\<close> is what its \<^verbatim>\<open>IsJoin\<close>
  answers. \<open>brokenUpdater\<close> fails to open a handle.
\<close>

definition logHandle :: "string list MembershipUpdater" where
  "logHandle =
     \<lparr>IsJoin = (\<lambda>log. False),
      IsLeave = (\<lambda>log. False),
      SetToInvite = (\<lambda>event log. (Inr True, log @ [''SetToInvite''])),
      SetToJoin = (\<lambda>sender eventID isUpdate log. (Inr [], log @ [''SetToJoin''])),
      SetToLeave = (\<lambda>sender eventID log. (Inr [], log @ [''SetToLeave'']))\<rparr>"

definition logUpdater :: "string list RoomRecentEventsUpdater" where
  "logUpdater =
     \<lparr>MembershipUpdater = (\<lambda>nid log. (Inr logHandle, log @ [''MembershipUpdater''])),
      RoomRecentEventsUpdater.RoomVersion = (\<lambda>log. ''5'')\<rparr>"

definition brokenHandle :: "bool \<Rightarrow> error \<Rightarrow> unit MembershipUpdater" where
  "brokenHandle isJoin err =
     \<lparr>IsJoin = (\<lambda>s. isJoin),
      IsLeave = (\<lambda>s. False),
      SetToInvite = (\<lambda>event s. (Inl err, s)),
      SetToJoin = (\<lambda>sender eventID isUpdate s. (Inl err, s)),
      SetToLeave = (\<lambda>sender eventID s. (Inl err, s))\<rparr>"

definition flakyUpdater :: "bool \<Rightarrow> error \<Rightarrow> unit RoomRecentEventsUpdater" where
  "flakyUpdater isJoin err =
     \<lparr>MembershipUpdater = (\<lambda>nid s. (Inr (brokenHandle isJoin err), s)),
      RoomRecentEventsUpdater.RoomVersion = (\<lambda>s. ''5'')\<rparr>"

definition brokenUpdater :: "error \<Rightarrow> unit RoomRecentEventsUpdater" where
  "brokenUpdater err =
     \<lparr>MembershipUpdater = (\<lambda>nid s. (Inl err, s)),
      RoomRecentEventsUpdater.RoomVersion = (\<lambda>s. ''5'')\<rparr>"

text \<open>
  An event store that holds a given list of events and answers a load with those
  whose identifier was asked for, and one that fails every load.
\<close>

definition eventStore :: "types_Event list \<Rightarrow> 's Database" where
  "eventStore held =
     \<lparr>Events = (\<lambda>eventNIDs s. Inr (filter (\<lambda>ev. types_Event.EventNID ev \<in> set eventNIDs) held))\<rparr>"

definition brokenStore :: "error \<Rightarrow> 's Database" where
  "brokenStore err = \<lparr>Events = (\<lambda>eventNIDs s. Inl err)\<rparr>"

definition numbered :: "int \<Rightarrow> Event \<Rightarrow> types_Event" where
  "numbered eventNID event = \<lparr>types_Event.EventNID = eventNID, types_Event.Event = event\<rparr>"

text \<open>A visiting order of the map: by the numeric identifier of the state key.\<close>

definition byStateKey :: "StateKeyTuple \<Rightarrow> nat" where
  "byStateKey t = nat (EventStateKeyNID t)"

text \<open>
  An example parser of data source names, standing in for \<^verbatim>\<open>url.Parse\<close> in the
  examples only: it rejects a name with a percent sign and takes what precedes the
  first colon as the scheme.
\<close>

definition exampleParse :: "string \<Rightarrow> error + URL" where
  "exampleParse name =
     (if CHR ''%'' \<in> set name then Inl (Foreign ''invalid URL escape'')
      else Inr \<lparr>Scheme = takeWhile (\<lambda>c. c \<noteq> CHR '':'') name\<rparr>)"

section \<open>Auxiliary notions\<close>

text \<open>
  The classification of a side of a change (lines 89-103): the membership of the
  event, and \<^verbatim>\<open>gomatrixserverlib.Leave\<close> when there is no event.
\<close>

definition classify :: "Event option \<Rightarrow> error + string" where
  "classify ev = (case ev of None \<Rightarrow> Inr Leave | Some e \<Rightarrow> Event.Membership e)"

text \<open>The change a tuple stands for in a map: the stored one, or the empty change.\<close>

definition baseChange :: "(StateKeyTuple \<rightharpoonup> stateChange) \<Rightarrow> StateKeyTuple \<Rightarrow> stateChange" where
  "baseChange m t = (case m t of None \<Rightarrow> mkStateChange t 0 0 | Some c \<Rightarrow> c)"

text \<open>The position of the first occurrence of a key in a list of keys.\<close>

definition position :: "'a list \<Rightarrow> 'a \<Rightarrow> nat" where
  "position ks k = length (takeWhile (\<lambda>x. x \<noteq> k) ks)"

section \<open>Properties of the change pairer\<close>

lemma tupleOf_mkStateChange [simp]: "tupleOf (mkStateChange t r a) = t"
  by (simp add: tupleOf_def mkStateChange_def)

lemma tupleOf_update [simp]:
  "tupleOf (c\<lparr>addedEventNID := n\<rparr>) = tupleOf c"
  "tupleOf (c\<lparr>removedEventNID := n\<rparr>) = tupleOf c"
  by (simp_all add: tupleOf_def)

lemma mkStateChange_fields [simp]:
  "removedEventNID (mkStateChange t r a) = r"
  "addedEventNID (mkStateChange t r a) = a"
  "(mkStateChange t r a)\<lparr>addedEventNID := n\<rparr> = mkStateChange t r n"
  "(mkStateChange t r a)\<lparr>removedEventNID := n\<rparr> = mkStateChange t n a"
  by (simp_all add: mkStateChange_def)

lemma map_of_addStep:
  "map_of (addStep tuples a) =
     (map_of tuples)(tupleOf a \<mapsto> (baseChange (map_of tuples) (tupleOf a))\<lparr>addedEventNID := StateEntry.EventNID a\<rparr>)"
  by (simp add: addStep_def baseChange_def update_conv' split: option.splits)

lemma map_of_removeStep:
  "map_of (removeStep tuples a) =
     (map_of tuples)(tupleOf a \<mapsto> (baseChange (map_of tuples) (tupleOf a))\<lparr>removedEventNID := StateEntry.EventNID a\<rparr>)"
  by (simp add: removeStep_def baseChange_def update_conv' split: option.splits)

lemma distinct_addStep: "distinct (map fst tuples) \<Longrightarrow> distinct (map fst (addStep tuples a))"
  by (simp add: addStep_def distinct_update split: option.splits)

lemma distinct_removeStep: "distinct (map fst tuples) \<Longrightarrow> distinct (map fst (removeStep tuples a))"
  by (simp add: removeStep_def distinct_update split: option.splits)

lemma distinct_addLoop: "distinct (map fst tuples) \<Longrightarrow> distinct (map fst (addLoop added tuples))"
  by (induction added arbitrary: tuples) (simp_all add: distinct_addStep)

lemma distinct_removeLoop: "distinct (map fst tuples) \<Longrightarrow> distinct (map fst (removeLoop removed tuples))"
  by (induction removed arbitrary: tuples) (simp_all add: distinct_removeStep)

lemma map_of_addLoop:
  "map_of (addLoop added tuples) t =
     (case filter (\<lambda>e. tupleOf e = t) added of
        [] \<Rightarrow> map_of tuples t
      | e # es \<Rightarrow> Some ((baseChange (map_of tuples) t)\<lparr>addedEventNID := StateEntry.EventNID (last (e # es))\<rparr>))"
proof (induction added arbitrary: tuples)
  case Nil
  show ?case by simp
next
  case (Cons a added)
  show ?case
    by (simp add: Cons.IH map_of_addStep baseChange_def split: list.splits)
qed

lemma map_of_removeLoop:
  "map_of (removeLoop removed tuples) t =
     (case filter (\<lambda>e. tupleOf e = t) removed of
        [] \<Rightarrow> map_of tuples t
      | e # es \<Rightarrow> Some ((baseChange (map_of tuples) t)\<lparr>removedEventNID := StateEntry.EventNID (last (e # es))\<rparr>))"
proof (induction removed arbitrary: tuples)
  case Nil
  show ?case by simp
next
  case (Cons a removed)
  show ?case
    by (simp add: Cons.IH map_of_removeStep baseChange_def split: list.splits)
qed

lemma filter_tuple_Nil_iff: "filter (\<lambda>e. tupleOf e = t) side = [] \<longleftrightarrow> t \<notin> tupleOf ` set side"
  by (auto simp: filter_empty_conv)

text \<open>
  \<open>sideNID\<close> is what the contract says: 0 for a tuple that the side does not hold,
  and the EventNID of an entry when the entries of the side with its tuple agree on
  it (in particular when the entry is the only one with its tuple).
\<close>

lemma sideNID_absent: "t \<notin> tupleOf ` set side \<Longrightarrow> sideNID side t = 0"
  by (simp add: sideNID_def filter_tuple_Nil_iff [THEN iffD2])

lemma sideNID_present:
  assumes "e \<in> set side"
    and "\<And>e'. e' \<in> set side \<Longrightarrow> tupleOf e' = tupleOf e \<Longrightarrow> StateEntry.EventNID e' = StateEntry.EventNID e"
  shows "sideNID side (tupleOf e) = StateEntry.EventNID e"
proof -
  let ?fs = "filter (\<lambda>x. tupleOf x = tupleOf e) side"
  from assms(1) have ne: "?fs \<noteq> []" by (auto simp: filter_empty_conv)
  then have "last ?fs \<in> set ?fs" by (rule last_in_set)
  then have "last ?fs \<in> set side" "tupleOf (last ?fs) = tupleOf e" by auto
  then have "StateEntry.EventNID (last ?fs) = StateEntry.EventNID e" by (rule assms(2))
  with ne show ?thesis by (cases ?fs) (simp_all add: sideNID_def)
qed

lemma map_of_paired:
  "map_of (removeLoop removed (addLoop added [])) t =
     (if t \<in> tupleOf ` set removed \<union> tupleOf ` set added
      then Some (mkStateChange t (sideNID removed t) (sideNID added t))
      else None)"
proof -
  have "filter (\<lambda>e. tupleOf e = t) removed = [] \<longleftrightarrow> t \<notin> tupleOf ` set removed"
    and "filter (\<lambda>e. tupleOf e = t) added = [] \<longleftrightarrow> t \<notin> tupleOf ` set added"
    by (rule filter_tuple_Nil_iff)+
  then show ?thesis
    by (auto simp: map_of_removeLoop map_of_addLoop baseChange_def sideNID_def
        split: list.splits)
qed

lemma set_rangeMap: "set (rangeMap ord tuples) = snd ` set tuples"
  by (simp add: rangeMap_def)

lemma mset_rangeMap: "mset (rangeMap ord tuples) = mset (map snd tuples)"
  by (simp add: rangeMap_def)

lemma position_nth:
  assumes "distinct ks" "i < length ks"
  shows "position ks (ks ! i) = i"
proof -
  have "takeWhile (\<lambda>x. x \<noteq> ks ! i) ks = take i ks"
  proof (rule takeWhile_eq_take_P_nth)
    fix j assume "j < i" "j < length ks"
    with assms show "ks ! j \<noteq> ks ! i" by (simp add: nth_eq_iff_index_eq)
  next
    show "\<not> ks ! i \<noteq> ks ! i" by simp
  qed
  with assms(2) show ?thesis by (simp add: position_def)
qed

lemma map_position: "distinct ks \<Longrightarrow> map (position ks) ks = [0..<length ks]"
  by (rule nth_equalityI) (simp_all add: position_nth)

lemma position_inj:
  assumes "distinct ks" "a \<in> set ks" "b \<in> set ks" "position ks a = position ks b"
  shows "a = b"
proof -
  from assms(2,3) obtain i j where "i < length ks" "ks ! i = a" "j < length ks" "ks ! j = b"
    by (auto simp: in_set_conv_nth)
  with assms(1,4) show ?thesis by (auto simp: position_nth)
qed

lemma filter_eq_single: "distinct xs \<Longrightarrow> x \<in> set xs \<Longrightarrow> filter (\<lambda>y. x = y) xs = [x]"
  by (induction xs) (auto simp: filter_empty_conv)

text \<open>
  Every enumeration of the entries of the map is the visit of some ranking of the
  keys: the parameter \<open>ord\<close> covers every order in which Go may range over the map.
\<close>

lemma rangeMap_any_order:
  assumes d: "distinct (map fst tuples)" and m: "mset visit = mset tuples"
  shows "rangeMap (position (map fst visit)) tuples = map snd visit"
proof -
  let ?f = "\<lambda>kv. position (map fst visit) (fst kv)"
  from m have mf: "mset (map fst visit) = mset (map fst tuples)" by (metis mset_map)
  with d have dv: "distinct (map fst visit)" by (metis mset_eq_imp_distinct_iff)
  from m have s: "set visit = set tuples" by (rule mset_eq_setD)
  have inj: "x = y" if "x \<in> set visit" "y \<in> set visit" "?f x = ?f y" for x y
  proof -
    from that dv have "fst x = fst y" by (auto intro: position_inj)
    with that(1,2) dv show ?thesis by (meson distinct_map inj_onD)
  qed
  have dt: "distinct tuples" "distinct visit" using d dv by (simp_all add: distinct_map)
  have "sort_key ?f tuples = visit"
  proof (rule properties_for_sort_key)
    show "mset visit = mset tuples" by (rule m)
  next
    fix k assume k: "k \<in> set visit"
    have "filter (\<lambda>x. ?f k = ?f x) visit = filter (\<lambda>x. k = x) visit"
      using k by (intro filter_cong refl) (auto dest: inj)
    moreover have "filter (\<lambda>x. ?f k = ?f x) tuples = filter (\<lambda>x. k = x) tuples"
      using k s by (intro filter_cong refl) (auto dest: inj)
    ultimately show "filter (\<lambda>x. ?f k = ?f x) visit = filter (\<lambda>x. ?f k = ?f x) tuples"
      using k s dt by (simp add: filter_eq_single)
  next
    have "map ?f visit = map (position (map fst visit)) (map fst visit)" by simp
    also have "\<dots> = [0..<length (map fst visit)]" using dv by (rule map_position)
    finally show "sorted (map ?f visit)" by simp
  qed
  then show ?thesis by (simp add: rangeMap_def)
qed

lemma paired_entry:
  assumes "(k, c) \<in> set (removeLoop removed (addLoop added []))"
  shows "k \<in> tupleOf ` set removed \<union> tupleOf ` set added"
    and "c = mkStateChange k (sideNID removed k) (sideNID added k)"
proof -
  have d: "distinct (map fst (removeLoop removed (addLoop added [])))"
    by (simp add: distinct_removeLoop distinct_addLoop)
  from assms d have "map_of (removeLoop removed (addLoop added [])) k = Some c"
    by simp
  then show "k \<in> tupleOf ` set removed \<union> tupleOf ` set added"
    and "c = mkStateChange k (sideNID removed k) (sideNID added k)"
    by (simp_all add: map_of_paired split: if_splits)
qed

lemma map_tupleOf_rangeMap:
  "map tupleOf (rangeMap ord (removeLoop removed (addLoop added []))) =
   map fst (sort_key (\<lambda>kv. ord (fst kv)) (removeLoop removed (addLoop added [])))"
  unfolding rangeMap_def map_map
proof (rule map_cong [OF refl])
  fix x assume "x \<in> set (sort_key (\<lambda>kv. ord (fst kv)) (removeLoop removed (addLoop added [])))"
  then have "(fst x, snd x) \<in> set (removeLoop removed (addLoop added []))" by simp
  from paired_entry(2) [OF this] show "(tupleOf \<circ> snd) x = fst x" by simp
qed

lemma distinct_tuples_pairUpChanges:
  "distinct (map tupleOf (pairUpChanges ord removed added))"
proof -
  let ?T = "removeLoop removed (addLoop added [])"
  have "mset (map fst (sort_key (\<lambda>kv. ord (fst kv)) ?T)) = mset (map fst ?T)"
    by simp
  moreover have "distinct (map fst ?T)"
    by (simp add: distinct_removeLoop distinct_addLoop)
  ultimately have "distinct (map fst (sort_key (\<lambda>kv. ord (fst kv)) ?T))"
    using mset_eq_imp_distinct_iff by blast
  then show ?thesis
    by (simp add: pairUpChanges_def map_tupleOf_rangeMap)
qed

lemma set_tuples_pairUpChanges:
  "tupleOf ` set (pairUpChanges ord removed added) = tupleOf ` set removed \<union> tupleOf ` set added"
proof -
  let ?T = "removeLoop removed (addLoop added [])"
  have "set (map tupleOf (pairUpChanges ord removed added)) = fst ` set ?T"
    by (simp add: pairUpChanges_def map_tupleOf_rangeMap del: set_map) simp
  also have "\<dots> = dom (map_of ?T)" by (simp add: dom_map_of_conv_image_fst)
  also have "\<dots> = tupleOf ` set removed \<union> tupleOf ` set added"
    by (auto simp: dom_def map_of_paired)
  finally show ?thesis by simp
qed

lemma sides_pairUpChanges:
  assumes "c \<in> set (pairUpChanges ord removed added)"
  shows "c = mkStateChange (tupleOf c) (sideNID removed (tupleOf c)) (sideNID added (tupleOf c))"
proof -
  from assms obtain k where k: "(k, c) \<in> set (removeLoop removed (addLoop added []))"
    by (auto simp: pairUpChanges_def set_rangeMap)
  from paired_entry(2) [OF k] have "c = mkStateChange k (sideNID removed k) (sideNID added k)" .
  moreover from this have "tupleOf c = k" by simp
  ultimately show ?thesis by simp
qed

text \<open>
  Claim C1. For every removed and added collection and every order in which the map
  is visited, \<^verbatim>\<open>pairUpChanges\<close> returns exactly one change per distinct StateKeyTuple
  of the two collections: the tuples of the changes are pairwise distinct, and they
  are the tuples of the removed and of the added entries. In each change
  \<^verbatim>\<open>addedEventNID\<close> is the EventNID of the added entry with the tuple of the change
  (0 when no added entry has it) and \<^verbatim>\<open>removedEventNID\<close> is the EventNID of the
  removed entry with that tuple (0 when no removed entry has it).
\<close>

theorem pairUpChanges_pairs:
  "distinct (map tupleOf (pairUpChanges ord removed added)) \<and>
   tupleOf ` set (pairUpChanges ord removed added) = tupleOf ` set removed \<union> tupleOf ` set added \<and>
   (\<forall>c \<in> set (pairUpChanges ord removed added).
      addedEventNID c = sideNID added (tupleOf c) \<and>
      removedEventNID c = sideNID removed (tupleOf c))"
proof (intro conjI ballI)
  show "distinct (map tupleOf (pairUpChanges ord removed added))"
    by (rule distinct_tuples_pairUpChanges)
  show "tupleOf ` set (pairUpChanges ord removed added) = tupleOf ` set removed \<union> tupleOf ` set added"
    by (rule set_tuples_pairUpChanges)
next
  fix c assume c: "c \<in> set (pairUpChanges ord removed added)"
  from sides_pairUpChanges [OF c] mkStateChange_fields(2)
  show "addedEventNID c = sideNID added (tupleOf c)" by metis
  from sides_pairUpChanges [OF c] mkStateChange_fields(1)
  show "removedEventNID c = sideNID removed (tupleOf c)" by metis
qed

text \<open>
  An example: one participant whose membership event 1 is replaced by event 2, and
  a second participant who gets the membership event 3.
\<close>

lemma pairUp_example:
  "pairUpChanges (\<lambda>_. 0) [memberEntry 7 1] [memberEntry 7 2, memberEntry 8 3] =
     [mkStateChange \<lparr>EventTypeNID = 5, EventStateKeyNID = 7\<rparr> 1 2,
      mkStateChange \<lparr>EventTypeNID = 5, EventStateKeyNID = 8\<rparr> 0 3]"
  by (simp add: pairUpChanges_def rangeMap_def addStep_def removeStep_def memberEntry_def
      tupleOf_def mkStateChange_def)

theorem pairUpChanges_pairs_witness:
  "mkStateChange \<lparr>EventTypeNID = 5, EventStateKeyNID = 7\<rparr> 1 2
     \<in> set (pairUpChanges (\<lambda>_. 0) [memberEntry 7 1] [memberEntry 7 2, memberEntry 8 3]) \<and>
   sideNID [memberEntry 7 2, memberEntry 8 3] \<lparr>EventTypeNID = 5, EventStateKeyNID = 7\<rparr> = 2 \<and>
   sideNID [memberEntry 7 1] \<lparr>EventTypeNID = 5, EventStateKeyNID = 7\<rparr> = 1 \<and>
   distinct (map tupleOf
     (pairUpChanges (\<lambda>_. 0) [memberEntry 7 1] [memberEntry 7 2, memberEntry 8 3]))"
proof -
  have m: "mkStateChange \<lparr>EventTypeNID = 5, EventStateKeyNID = 7\<rparr> 1 2
     \<in> set (pairUpChanges (\<lambda>_. 0) [memberEntry 7 1] [memberEntry 7 2, memberEntry 8 3])"
    by (simp add: pairUpChanges_def rangeMap_def addStep_def removeStep_def memberEntry_def
        tupleOf_def mkStateChange_def)
  from pairUpChanges_pairs [of "\<lambda>_. 0" "[memberEntry 7 1]" "[memberEntry 7 2, memberEntry 8 3]"] m
  have "addedEventNID (mkStateChange \<lparr>EventTypeNID = 5, EventStateKeyNID = 7\<rparr> 1 2) =
          sideNID [memberEntry 7 2, memberEntry 8 3]
            (tupleOf (mkStateChange \<lparr>EventTypeNID = 5, EventStateKeyNID = 7\<rparr> 1 2))"
    and "removedEventNID (mkStateChange \<lparr>EventTypeNID = 5, EventStateKeyNID = 7\<rparr> 1 2) =
          sideNID [memberEntry 7 1]
            (tupleOf (mkStateChange \<lparr>EventTypeNID = 5, EventStateKeyNID = 7\<rparr> 1 2))"
    and "distinct (map tupleOf
     (pairUpChanges (\<lambda>_. 0) [memberEntry 7 1] [memberEntry 7 2, memberEntry 8 3]))"
    by blast+
  with m show ?thesis by simp
qed

section \<open>Properties of the transition handlers\<close>

lemma retireLoop_StateKey:
  "StateKey a = Some target \<Longrightarrow>
   retireLoop a membership retired updates =
     Returns (updates @ map (\<lambda>eventID. retireInvite eventID membership (Event.EventID a) target) retired)"
  by (induction retired arbitrary: updates) (simp_all add: retireInvite_def)

text \<open>
  An event without state key makes the first iteration of the loop panic: the
  statements about the retire records are about events that have a state key, as
  every membership event has.
\<close>

lemma retireLoop_no_StateKey:
  "StateKey a = None \<Longrightarrow> retired \<noteq> [] \<Longrightarrow>
   retireLoop a membership retired updates = Panics NilDereference"
  by (cases retired) simp_all

lemma invite_new:
  "SetToInvite mu a s = (Inr True, s') \<Longrightarrow>
   updateToInviteMembership mu (Some a) updates roomVersion s =
     Returns ((updates @ [newInvite a roomVersion], None), s')"
  by (simp add: updateToInviteMembership_def newInvite_def)

lemma invite_known:
  "SetToInvite mu a s = (Inr False, s') \<Longrightarrow>
   updateToInviteMembership mu (Some a) updates roomVersion s = Returns ((updates, None), s')"
  by (simp add: updateToInviteMembership_def)

lemma invite_error:
  "SetToInvite mu a s = (Inl err, s') \<Longrightarrow>
   updateToInviteMembership mu (Some a) updates roomVersion s = Returns (([], Some err), s')"
  by (simp add: updateToInviteMembership_def)

lemma handle_simps [simp]:
  "IsJoin (handle nid) s = (current (s nid) = Joined)"
  "IsLeave (handle nid) s = (current (s nid) = LeftOrBanned)"
  "SetToInvite (handle nid) = setToInvite nid"
  "SetToJoin (handle nid) = setToJoin nid"
  "SetToLeave (handle nid) = setToLeave nid"
  by (simp_all add: handle_def)

text \<open>
  Claim C2. For every invite event and every handle, the invite transition appends
  exactly one "new invite" record, carrying the headered event and the version of
  the room, when \<^verbatim>\<open>SetToInvite\<close> reports the invite as new, and appends nothing when
  \<^verbatim>\<open>SetToInvite\<close> reports it as already recorded. Against a fresh handle, running
  the transition twice with one invite event therefore yields one "new invite"
  record in total: the first run appends it and the second run appends nothing.
\<close>

theorem updateToInviteMembership_dedup:
  "(SetToInvite mu a s = (Inr True, s') \<longrightarrow>
      updateToInviteMembership mu (Some a) updates roomVersion s =
        Returns ((updates @ [newInvite a roomVersion], None), s')) \<and>
   (SetToInvite mu b t = (Inr False, t') \<longrightarrow>
      updateToInviteMembership mu (Some b) updates roomVersion t = Returns ((updates, None), t')) \<and>
   (\<exists>s1. updateToInviteMembership (handle nid) (Some a) updates roomVersion fresh =
            Returns ((updates @ [newInvite a roomVersion], None), s1) \<and>
         updateToInviteMembership (handle nid) (Some a) (updates @ [newInvite a roomVersion])
            roomVersion s1 =
            Returns ((updates @ [newInvite a roomVersion], None), s1))"
proof (intro conjI impI)
  assume "SetToInvite mu a s = (Inr True, s')"
  then show "updateToInviteMembership mu (Some a) updates roomVersion s =
        Returns ((updates @ [newInvite a roomVersion], None), s')"
    by (rule invite_new)
next
  assume "SetToInvite mu b t = (Inr False, t')"
  then show "updateToInviteMembership mu (Some b) updates roomVersion t = Returns ((updates, None), t')"
    by (rule invite_known)
next
  let ?s1 = "snd (setToInvite nid a fresh)"
  have first: "SetToInvite (handle nid) a fresh = (Inr True, ?s1)"
    by (simp add: setToInvite_def fresh_def)
  have second: "SetToInvite (handle nid) a ?s1 = (Inr False, ?s1)"
    by (simp add: setToInvite_def fresh_def)
  show "\<exists>s1. updateToInviteMembership (handle nid) (Some a) updates roomVersion fresh =
            Returns ((updates @ [newInvite a roomVersion], None), s1) \<and>
         updateToInviteMembership (handle nid) (Some a) (updates @ [newInvite a roomVersion])
            roomVersion s1 =
            Returns ((updates @ [newInvite a roomVersion], None), s1)"
    using invite_new [OF first] invite_known [OF second] by blast
qed

theorem updateToInviteMembership_dedup_witness:
  "SetToInvite (handle 7) E1 fresh =
     (Inr True, fresh(7 := \<lparr>current = Invited, outstanding = [''$E1''], reference = ''$E1''\<rparr>)) \<and>
   updateToInviteMembership (handle 7) (Some E1) [] ''5'' fresh =
     Returns (([newInvite E1 ''5''], None),
              fresh(7 := \<lparr>current = Invited, outstanding = [''$E1''], reference = ''$E1''\<rparr>)) \<and>
   SetToInvite (handle 7) E1
     (fresh(7 := \<lparr>current = Invited, outstanding = [''$E1''], reference = ''$E1''\<rparr>)) =
     (Inr False, fresh(7 := \<lparr>current = Invited, outstanding = [''$E1''], reference = ''$E1''\<rparr>)) \<and>
   updateToInviteMembership (handle 7) (Some E1) [newInvite E1 ''5''] ''5''
     (fresh(7 := \<lparr>current = Invited, outstanding = [''$E1''], reference = ''$E1''\<rparr>)) =
     Returns (([newInvite E1 ''5''], None),
              fresh(7 := \<lparr>current = Invited, outstanding = [''$E1''], reference = ''$E1''\<rparr>))"
proof -
  let ?s1 = "fresh(7 := \<lparr>current = Invited, outstanding = [''$E1''], reference = ''$E1''\<rparr>)"
  have h1: "SetToInvite (handle 7) E1 fresh = (Inr True, ?s1)"
    by (simp add: setToInvite_def fresh_def E1_def memberEvent_def)
  have h2: "SetToInvite (handle 7) E1 ?s1 = (Inr False, ?s1)"
    by (simp add: setToInvite_def fresh_def E1_def memberEvent_def)
  from updateToInviteMembership_dedup
         [of "handle 7" E1 fresh ?s1 "[]" "''5''" E1 ?s1 ?s1 7]
  have "updateToInviteMembership (handle 7) (Some E1) [] ''5'' fresh =
          Returns (([newInvite E1 ''5''], None), ?s1)"
    using h1 by simp
  moreover
  from updateToInviteMembership_dedup
         [of "handle 7" E1 fresh ?s1 "[newInvite E1 ''5'']" "''5''" E1 ?s1 ?s1 7]
  have "updateToInviteMembership (handle 7) (Some E1) [newInvite E1 ''5''] ''5'' ?s1 =
          Returns (([newInvite E1 ''5''], None), ?s1)"
    using h2 by simp
  ultimately show ?thesis using h1 h2 by simp
qed

lemma example_events [simp]:
  "Sender (memberEvent eventID membership) = ''@a:hs''"
  "Event.EventID (memberEvent eventID membership) = eventID"
  "StateKey (memberEvent eventID membership) = Some ''@a:hs''"
  "Event.Membership (memberEvent eventID membership) = Inr membership"
  by (simp_all add: memberEvent_def)

lemma join_update:
  "IsJoin mu s \<Longrightarrow> SetToJoin mu (Sender a) (Event.EventID a) True s = (Inr ignored, s') \<Longrightarrow>
   updateToJoinMembership mu (Some a) updates s = Returns ((updates, None), s')"
  by (simp add: updateToJoinMembership_def)

lemma join_retire:
  "\<not> IsJoin mu s \<Longrightarrow> SetToJoin mu (Sender a) (Event.EventID a) False s = (Inr retired, s') \<Longrightarrow>
   StateKey a = Some target \<Longrightarrow>
   updateToJoinMembership mu (Some a) updates s =
     Returns ((updates @ map (\<lambda>eventID. retireInvite eventID Join (Event.EventID a) target) retired,
               None), s')"
  by (simp add: updateToJoinMembership_def retireLoop_StateKey)

lemma join_error:
  "SetToJoin mu (Sender a) (Event.EventID a) (IsJoin mu s) s = (Inl err, s') \<Longrightarrow>
   updateToJoinMembership mu (Some a) updates s = Returns (([], Some err), s')"
  by (cases "IsJoin mu s") (simp_all add: updateToJoinMembership_def)

lemma leave_idle:
  "IsLeave mu s \<Longrightarrow>
   updateToLeaveMembership mu add newMembership updates s = Returns ((updates, None), s)"
  by (simp add: updateToLeaveMembership_def)

lemma leave_retire:
  "\<not> IsLeave mu s \<Longrightarrow> SetToLeave mu (Sender a) (Event.EventID a) s = (Inr retired, s') \<Longrightarrow>
   StateKey a = Some target \<Longrightarrow>
   updateToLeaveMembership mu (Some a) newMembership updates s =
     Returns ((updates @
               map (\<lambda>eventID. retireInvite eventID newMembership (Event.EventID a) target) retired,
               None), s')"
  by (simp add: updateToLeaveMembership_def retireLoop_StateKey)

lemma leave_error:
  "\<not> IsLeave mu s \<Longrightarrow> SetToLeave mu (Sender a) (Event.EventID a) s = (Inl err, s') \<Longrightarrow>
   updateToLeaveMembership mu (Some a) newMembership updates s = Returns (([], Some err), s')"
  by (simp add: updateToLeaveMembership_def)

text \<open>
  Claim C3. For every join transition: when the handle reports the participant as
  joined already, the handler calls \<^verbatim>\<open>SetToJoin\<close> with retirement suppressed and
  appends nothing; otherwise it calls \<^verbatim>\<open>SetToJoin\<close> with retirement enabled and
  appends one "retire invite" record per retired invite identifier, each with the
  membership join, the identifier of the joining event as the retiring event, and
  the target participant (the state key of the joining event). So a participant
  with one outstanding invite who joins yields exactly one "retire invite" record
  and is reported as joined afterwards, and a second join appends nothing.
\<close>

theorem updateToJoinMembership_retires:
  "(IsJoin mu s \<and> SetToJoin mu (Sender a) (Event.EventID a) True s = (Inr ignored, s') \<longrightarrow>
      updateToJoinMembership mu (Some a) updates s = Returns ((updates, None), s')) \<and>
   (\<not> IsJoin mu t \<and> SetToJoin mu (Sender a) (Event.EventID a) False t = (Inr retired, t') \<and>
    StateKey a = Some target \<longrightarrow>
      updateToJoinMembership mu (Some a) updates t =
        Returns ((updates @
                  map (\<lambda>eventID. retireInvite eventID Join (Event.EventID a) target) retired,
                  None), t')) \<and>
   (current (st nid) = Invited \<and> outstanding (st nid) = [invite] \<and> StateKey b = Some user \<longrightarrow>
      (\<exists>s1 s2.
         updateToJoinMembership (handle nid) (Some b) updates st =
           Returns ((updates @ [retireInvite invite Join (Event.EventID b) user], None), s1) \<and>
         IsJoin (handle nid) s1 \<and>
         updateToJoinMembership (handle nid) (Some b) updates' s1 =
           Returns ((updates', None), s2)))"
proof (intro conjI impI; (elim conjE)?)
  assume "IsJoin mu s" "SetToJoin mu (Sender a) (Event.EventID a) True s = (Inr ignored, s')"
  then show "updateToJoinMembership mu (Some a) updates s = Returns ((updates, None), s')"
    by (rule join_update)
next
  assume "\<not> IsJoin mu t" "SetToJoin mu (Sender a) (Event.EventID a) False t = (Inr retired, t')"
    "StateKey a = Some target"
  then show "updateToJoinMembership mu (Some a) updates t =
        Returns ((updates @
                  map (\<lambda>eventID. retireInvite eventID Join (Event.EventID a) target) retired,
                  None), t')"
    by (rule join_retire)
next
  assume st: "current (st nid) = Invited" "outstanding (st nid) = [invite]"
    and key: "StateKey b = Some user"
  let ?s1 = "snd (setToJoin nid (Sender b) (Event.EventID b) False st)"
  let ?s2 = "snd (setToJoin nid (Sender b) (Event.EventID b) True ?s1)"
  have n: "\<not> IsJoin (handle nid) st" using st by simp
  have c1: "SetToJoin (handle nid) (Sender b) (Event.EventID b) False st = (Inr [invite], ?s1)"
    using st by (simp add: setToJoin_def)
  have j: "IsJoin (handle nid) ?s1" by (simp add: setToJoin_def)
  have c2: "SetToJoin (handle nid) (Sender b) (Event.EventID b) True ?s1 = (Inr [], ?s2)"
    by (simp add: setToJoin_def)
  from join_retire [OF n c1 key, of updates] join_update [OF j c2, of updates'] j
  show "\<exists>s1 s2.
         updateToJoinMembership (handle nid) (Some b) updates st =
           Returns ((updates @ [retireInvite invite Join (Event.EventID b) user], None), s1) \<and>
         IsJoin (handle nid) s1 \<and>
         updateToJoinMembership (handle nid) (Some b) updates' s1 =
           Returns ((updates', None), s2)"
    by auto
qed

theorem updateToJoinMembership_retires_witness:
  "\<not> IsJoin (handle 7) invited \<and>
   SetToJoin (handle 7) (Sender E2) (Event.EventID E2) False invited = (Inr [''$E1''], joined) \<and>
   StateKey E2 = Some ''@a:hs'' \<and>
   current (invited 7) = Invited \<and> outstanding (invited 7) = [''$E1''] \<and>
   updateToJoinMembership (handle 7) (Some E2) [] invited =
     Returns (([retireInvite ''$E1'' Join ''$E2'' ''@a:hs''], None), joined) \<and>
   IsJoin (handle 7) joined \<and>
   SetToJoin (handle 7) (Sender E2) (Event.EventID E2) True joined = (Inr [], joined) \<and>
   updateToJoinMembership (handle 7) (Some E2) [retireInvite ''$E1'' Join ''$E2'' ''@a:hs''] joined =
     Returns (([retireInvite ''$E1'' Join ''$E2'' ''@a:hs''], None), joined)"
proof -
  have h: "\<not> IsJoin (handle 7) invited"
    "SetToJoin (handle 7) (Sender E2) (Event.EventID E2) False invited = (Inr [''$E1''], joined)"
    "StateKey E2 = Some ''@a:hs''"
    "current (invited 7) = Invited" "outstanding (invited 7) = [''$E1'']"
    "IsJoin (handle 7) joined"
    "SetToJoin (handle 7) (Sender E2) (Event.EventID E2) True joined = (Inr [], joined)"
    by (simp_all add: invited_def joined_def setToJoin_def E2_def)
  from updateToJoinMembership_retires
         [where mu = "handle 7" and s = joined and a = E2 and ignored = "[]" and s' = joined
            and updates = "[retireInvite ''$E1'' Join ''$E2'' ''@a:hs'']"] h
  have "updateToJoinMembership (handle 7) (Some E2)
          [retireInvite ''$E1'' Join ''$E2'' ''@a:hs''] joined =
        Returns (([retireInvite ''$E1'' Join ''$E2'' ''@a:hs''], None), joined)"
    by blast
  moreover
  from updateToJoinMembership_retires
         [where mu = "handle 7" and t = invited and a = E2 and retired = "[''$E1'']"
            and t' = joined and target = "''@a:hs''" and updates = "[]"] h
  have "updateToJoinMembership (handle 7) (Some E2) [] invited =
        Returns (([] @ map (\<lambda>eventID. retireInvite eventID Join (Event.EventID E2) ''@a:hs'')
                          [''$E1''], None), joined)"
    by blast
  then have "updateToJoinMembership (handle 7) (Some E2) [] invited =
        Returns (([retireInvite ''$E1'' Join ''$E2'' ''@a:hs''], None), joined)"
    by (simp add: E2_def)
  ultimately show ?thesis using h by simp
qed

text \<open>
  Claim C4. For every leave or ban transition: when the handle reports the
  participant as left or banned already, the handler appends nothing and leaves the
  store as it is; otherwise it calls \<^verbatim>\<open>SetToLeave\<close> and appends one "retire invite"
  record per retired invite identifier, each with the new membership as it was
  passed (leave or ban), the identifier of the triggering event, and the target
  participant (the state key of the triggering event).
\<close>

theorem updateToLeaveMembership_retires:
  "(IsLeave mu s \<longrightarrow>
      updateToLeaveMembership mu add newMembership updates s = Returns ((updates, None), s)) \<and>
   (\<not> IsLeave mu t \<and> SetToLeave mu (Sender a) (Event.EventID a) t = (Inr retired, t') \<and>
    StateKey a = Some target \<longrightarrow>
      updateToLeaveMembership mu (Some a) newMembership updates t =
        Returns ((updates @
                  map (\<lambda>eventID. retireInvite eventID newMembership (Event.EventID a) target)
                    retired,
                  None), t'))"
  by (simp add: leave_idle leave_retire)

theorem updateToLeaveMembership_retires_witness:
  "\<not> IsLeave (handle 7) invited \<and>
   SetToLeave (handle 7) (Sender E4) (Event.EventID E4) invited = (Inr [''$E1''], gone ''$E4'') \<and>
   StateKey E4 = Some ''@a:hs'' \<and>
   updateToLeaveMembership (handle 7) (Some E4) Ban [] invited =
     Returns (([retireInvite ''$E1'' Ban ''$E4'' ''@a:hs''], None), gone ''$E4'') \<and>
   IsLeave (handle 7) (gone ''$E4'') \<and>
   updateToLeaveMembership (handle 7) (Some E4) Ban [retireInvite ''$E1'' Ban ''$E4'' ''@a:hs'']
       (gone ''$E4'') =
     Returns (([retireInvite ''$E1'' Ban ''$E4'' ''@a:hs''], None), gone ''$E4'')"
proof -
  have h: "\<not> IsLeave (handle 7) invited"
    "SetToLeave (handle 7) (Sender E4) (Event.EventID E4) invited = (Inr [''$E1''], gone ''$E4'')"
    "StateKey E4 = Some ''@a:hs''"
    "IsLeave (handle 7) (gone ''$E4'')"
    by (simp_all add: invited_def gone_def setToLeave_def E4_def)
  from updateToLeaveMembership_retires
         [where mu = "handle 7" and s = "gone ''$E4''" and add = "Some E4" and newMembership = Ban
            and updates = "[retireInvite ''$E1'' Ban ''$E4'' ''@a:hs'']"] h
  have "updateToLeaveMembership (handle 7) (Some E4) Ban
          [retireInvite ''$E1'' Ban ''$E4'' ''@a:hs''] (gone ''$E4'') =
        Returns (([retireInvite ''$E1'' Ban ''$E4'' ''@a:hs''], None), gone ''$E4'')"
    by blast
  moreover
  from updateToLeaveMembership_retires
         [where mu = "handle 7" and t = invited and a = E4 and retired = "[''$E1'']"
            and t' = "gone ''$E4''" and target = "''@a:hs''" and updates = "[]"
            and newMembership = Ban] h
  have "updateToLeaveMembership (handle 7) (Some E4) Ban [] invited =
        Returns (([] @ map (\<lambda>eventID. retireInvite eventID Ban (Event.EventID E4) ''@a:hs'')
                          [''$E1''], None), gone ''$E4'')"
    by blast
  then have "updateToLeaveMembership (handle 7) (Some E4) Ban [] invited =
        Returns (([retireInvite ''$E1'' Ban ''$E4'' ''@a:hs''], None), gone ''$E4'')"
    by (simp add: E4_def)
  ultimately show ?thesis using h by simp
qed

section \<open>Properties of the membership resolver\<close>

lemma membership_constants [simp]:
  "Invite \<noteq> Join" "Invite \<noteq> Leave" "Invite \<noteq> Ban"
  "Join \<noteq> Invite" "Join \<noteq> Leave" "Join \<noteq> Ban"
  "Leave \<noteq> Invite" "Leave \<noteq> Join" "Leave \<noteq> Ban"
  "Ban \<noteq> Invite" "Ban \<noteq> Join" "Ban \<noteq> Leave"
  by (simp_all add: Invite_def Join_def Leave_def Ban_def)

lemma classify_simps [simp]:
  "classify None = Inr Leave"
  "classify (Some e) = Event.Membership e"
  by (simp_all add: classify_def)

lemma updateMembership_classified:
  "classify remove = Inr oldMembership \<Longrightarrow> classify add = Inr newMembership \<Longrightarrow>
   updateMembership updater nid remove add updates s =
     (if oldMembership = newMembership \<and> newMembership \<noteq> Join
      then Returns ((updates, None), s)
      else if add = None
      then Returns ((updates, Some (ErrorsNew ''add should not be nil'')), s)
      else
        (case MembershipUpdater updater nid s of
           (Inl err, s') \<Rightarrow> Returns (([], Some err), s')
         | (Inr mu, s') \<Rightarrow>
             if newMembership = Invite
             then updateToInviteMembership mu add updates
                    (RoomRecentEventsUpdater.RoomVersion updater s') s'
             else if newMembership = Join
             then updateToJoinMembership mu add updates s'
             else if newMembership = Leave \<or> newMembership = Ban
             then updateToLeaveMembership mu add newMembership updates s'
             else Panics (MembershipNotAllowed newMembership)))"
  by (simp add: updateMembership_def classify_def split: option.splits)

lemma updateMembership_parse_remove:
  "classify remove = Inl err \<Longrightarrow>
   updateMembership updater nid remove add updates s = Returns (([], Some err), s)"
  by (simp add: updateMembership_def classify_def split: option.splits)

lemma updateMembership_parse_add:
  "classify remove = Inr oldMembership \<Longrightarrow> classify add = Inl err \<Longrightarrow>
   updateMembership updater nid remove add updates s = Returns (([], Some err), s)"
  by (simp add: updateMembership_def classify_def split: option.splits)

lemma updateMembership_skip:
  "classify remove = Inr membership \<Longrightarrow> classify add = Inr membership \<Longrightarrow> membership \<noteq> Join \<Longrightarrow>
   updateMembership updater nid remove add updates s = Returns ((updates, None), s)"
  by (simp add: updateMembership_classified)

lemma updateMembership_no_add:
  "classify remove = Inr oldMembership \<Longrightarrow> oldMembership \<noteq> Leave \<Longrightarrow>
   updateMembership updater nid remove None updates s =
     Returns ((updates, Some (ErrorsNew ''add should not be nil'')), s)"
  by (simp add: updateMembership_classified [where newMembership = Leave])

lemma changesLoop_step_error:
  "updateMembership updater (EventStateKeyNID change)
     (sideEvent events (removedEventNID change)) (sideEvent events (addedEventNID change))
     updates s = Returns ((updates', Some err), s') \<Longrightarrow>
   changesLoop updater events (change # changes) updates s = Returns (([], Some err), s')"
  by simp

lemma example_memberships [simp]:
  "Event.Membership E1 = Inr Invite" "Event.Membership E2 = Inr Join"
  "Event.Membership E3 = Inr Leave" "Event.Membership E4 = Inr Ban"
  "Event.Membership E5 = Inr ''knock''"
  "Event.Membership E6 = Inl (Foreign ''missing membership key'')"
  by (simp_all add: E1_def E2_def E3_def E4_def E5_def E6_def)

text \<open>
  Claim C5. For every change whose classified old membership equals its classified
  new membership, the new one not being join, \<^verbatim>\<open>updateMembership\<close> returns the
  accumulator as it is and the store as it is, whatever the collaborators are: no
  handle is opened and no handle operation is performed. A join-to-join transition
  is not skipped: the handle is opened and the join transition runs.
\<close>

theorem updateMembership_noop:
  "(classify remove = Inr membership \<and> classify add = Inr membership \<and> membership \<noteq> Join \<longrightarrow>
      updateMembership updater nid remove add updates s = Returns ((updates, None), s)) \<and>
   (classify remove' = Inr Join \<and> classify add' = Inr Join \<longrightarrow>
      updateMembership updater nid remove' add' updates s =
        (case MembershipUpdater updater nid s of
           (Inl err, s') \<Rightarrow> Returns (([], Some err), s')
         | (Inr mu, s') \<Rightarrow> updateToJoinMembership mu add' updates s'))"
proof (intro conjI impI; (elim conjE)?)
  assume "classify remove = Inr membership" "classify add = Inr membership" "membership \<noteq> Join"
  then show "updateMembership updater nid remove add updates s = Returns ((updates, None), s)"
    by (rule updateMembership_skip)
next
  assume r: "classify remove' = Inr Join" and a: "classify add' = Inr Join"
  from a have n: "add' \<noteq> None" by (cases add') simp_all
  show "updateMembership updater nid remove' add' updates s =
        (case MembershipUpdater updater nid s of
           (Inl err, s') \<Rightarrow> Returns (([], Some err), s')
         | (Inr mu, s') \<Rightarrow> updateToJoinMembership mu add' updates s')"
    unfolding updateMembership_classified [OF r a] using n
    by (auto split: prod.splits sum.splits)
qed

theorem updateMembership_noop_witness:
  "classify (Some E3) = Inr Leave \<and> classify None = Inr Leave \<and> Leave \<noteq> Join \<and>
   updateMembership logUpdater 7 (Some E3) None [] [] = Returns (([], None), []) \<and>
   classify (Some E2) = Inr Join \<and>
   updateMembership logUpdater 7 (Some E2) (Some E2) [] [] =
     Returns (([], None), [''MembershipUpdater'', ''SetToJoin''])"
proof -
  have h: "classify (Some E3) = Inr Leave" "classify None = Inr Leave" "Leave \<noteq> Join"
    "classify (Some E2) = Inr Join"
    by (simp_all add: E3_def E2_def)
  from updateMembership_noop
         [where remove = "Some E3" and add = None and membership = Leave and updater = logUpdater
            and nid = 7 and updates = "[]" and s = "[]"] h
  have "updateMembership logUpdater 7 (Some E3) None [] [] = Returns (([], None), [])"
    by blast
  moreover
  from updateMembership_noop
         [where remove' = "Some E2" and add' = "Some E2" and updater = logUpdater
            and nid = 7 and updates = "[]" and s = "[]"] h
  have "updateMembership logUpdater 7 (Some E2) (Some E2) [] [] =
        (case MembershipUpdater logUpdater 7 [] of
           (Inl err, s') \<Rightarrow> Returns (([], Some err), s')
         | (Inr mu, s') \<Rightarrow> updateToJoinMembership mu (Some E2) [] s')"
    by blast
  then have "updateMembership logUpdater 7 (Some E2) (Some E2) [] [] =
     Returns (([], None), [''MembershipUpdater'', ''SetToJoin''])"
    by (simp add: logUpdater_def logHandle_def updateToJoinMembership_def)
  ultimately show ?thesis using h by simp
qed

text \<open>
  Claim C7. For every change whose classified old membership is not the leave
  default while no added event resolved, \<^verbatim>\<open>updateMembership\<close> returns the error
  "add should not be nil" instead of panicking, adds no record to the accumulator
  and leaves the store as it is; and the loop over the changes stops there and
  returns that error with no records.
\<close>

theorem updateMembership_add_nil:
  "(classify remove = Inr oldMembership \<and> oldMembership \<noteq> Leave \<longrightarrow>
      updateMembership updater nid remove None updates s =
        Returns ((updates, Some (ErrorsNew ''add should not be nil'')), s)) \<and>
   (classify (sideEvent events (removedEventNID change)) = Inr oldMembership' \<and>
    oldMembership' \<noteq> Leave \<and> sideEvent events (addedEventNID change) = None \<longrightarrow>
      changesLoop updater events (change # changes) updates s =
        Returns (([], Some (ErrorsNew ''add should not be nil'')), s))"
proof (intro conjI impI; (elim conjE)?)
  assume "classify remove = Inr oldMembership" "oldMembership \<noteq> Leave"
  then show "updateMembership updater nid remove None updates s =
        Returns ((updates, Some (ErrorsNew ''add should not be nil'')), s)"
    by (rule updateMembership_no_add)
next
  assume c: "classify (sideEvent events (removedEventNID change)) = Inr oldMembership'"
    "oldMembership' \<noteq> Leave"
    and n: "sideEvent events (addedEventNID change) = None"
  from updateMembership_no_add [OF c]
  have "updateMembership updater (EventStateKeyNID change)
     (sideEvent events (removedEventNID change)) (sideEvent events (addedEventNID change))
     updates s = Returns ((updates, Some (ErrorsNew ''add should not be nil'')), s)"
    by (simp add: n)
  then show "changesLoop updater events (change # changes) updates s =
        Returns (([], Some (ErrorsNew ''add should not be nil'')), s)"
    by (rule changesLoop_step_error)
qed

theorem updateMembership_add_nil_witness:
  "classify (Some E2) = Inr Join \<and> Join \<noteq> Leave \<and>
   updateMembership (roomUpdater ''5'') 7 (Some E2) None [newInvite E1 ''5''] joined =
     Returns (([newInvite E1 ''5''], Some (ErrorsNew ''add should not be nil'')), joined) \<and>
   classify (sideEvent [\<lparr>types_Event.EventNID = 2, types_Event.Event = E2\<rparr>]
      (removedEventNID (mkStateChange \<lparr>EventTypeNID = 5, EventStateKeyNID = 7\<rparr> 2 0))) = Inr Join \<and>
   sideEvent [\<lparr>types_Event.EventNID = 2, types_Event.Event = E2\<rparr>]
      (addedEventNID (mkStateChange \<lparr>EventTypeNID = 5, EventStateKeyNID = 7\<rparr> 2 0)) = None \<and>
   changesLoop (roomUpdater ''5'') [\<lparr>types_Event.EventNID = 2, types_Event.Event = E2\<rparr>]
      [mkStateChange \<lparr>EventTypeNID = 5, EventStateKeyNID = 7\<rparr> 2 0] [newInvite E1 ''5''] joined =
     Returns (([], Some (ErrorsNew ''add should not be nil'')), joined)"
proof -
  let ?events = "[\<lparr>types_Event.EventNID = 2, types_Event.Event = E2\<rparr>]"
  let ?change = "mkStateChange \<lparr>EventTypeNID = 5, EventStateKeyNID = 7\<rparr> 2 0"
  have h: "classify (Some E2) = Inr Join" "Join \<noteq> Leave"
    "classify (sideEvent ?events (removedEventNID ?change)) = Inr Join"
    "sideEvent ?events (addedEventNID ?change) = None"
    by (simp_all add: sideEvent_def lookup_def)
  from updateMembership_add_nil
         [where remove = "Some E2" and oldMembership = Join and updater = "roomUpdater ''5''"
            and nid = 7 and updates = "[newInvite E1 ''5'']" and s = joined
            and events = ?events and change = ?change and oldMembership' = Join
            and changes = "[]"] h
  show ?thesis by simp
qed

text \<open>
  Claim C8, as stated, fails: for an added event whose membership is \<^verbatim>\<open>knock\<close>,
  \<^verbatim>\<open>updateMembership\<close> does not return an error to the caller; it panics.
\<close>

theorem updateMembership_invalid_counterexample:
  "updateMembership (roomUpdater ''5'') 7 None (Some E5) [] fresh =
     Panics (MembershipNotAllowed ''knock'')"
  by (simp add: updateMembership_def roomUpdater_def E5_def memberEvent_def
      Invite_def Join_def Leave_def Ban_def)

text \<open>
  Claim C8, amended. For every change whose classified new membership lies outside
  invite, join, leave and ban and differs from the classified old membership,
  \<^verbatim>\<open>updateMembership\<close> opens the handle; when that fails it returns the error of the
  handle factory with no records, and otherwise it panics with a message that quotes
  the membership value. No error value of its own is returned to the caller.
\<close>

theorem updateMembership_invalid_panics:
  "classify remove = Inr oldMembership \<and> Event.Membership a = Inr newMembership \<and>
   newMembership \<notin> {Invite, Join, Leave, Ban} \<and> oldMembership \<noteq> newMembership \<longrightarrow>
     updateMembership updater nid remove (Some a) updates s =
       (case MembershipUpdater updater nid s of
          (Inl err, s') \<Rightarrow> Returns (([], Some err), s')
        | (Inr mu, s') \<Rightarrow> Panics (MembershipNotAllowed newMembership))"
proof (intro impI; elim conjE)
  assume r: "classify remove = Inr oldMembership" and a: "Event.Membership a = Inr newMembership"
    and n: "newMembership \<notin> {Invite, Join, Leave, Ban}" and d: "oldMembership \<noteq> newMembership"
  from a have c: "classify (Some a) = Inr newMembership" by simp
  show "updateMembership updater nid remove (Some a) updates s =
       (case MembershipUpdater updater nid s of
          (Inl err, s') \<Rightarrow> Returns (([], Some err), s')
        | (Inr mu, s') \<Rightarrow> Panics (MembershipNotAllowed newMembership))"
    unfolding updateMembership_classified [OF r c] using n d
    by (auto split: prod.splits sum.splits)
qed

theorem updateMembership_invalid_panics_witness:
  "classify None = Inr Leave \<and> Event.Membership E5 = Inr ''knock'' \<and>
   ''knock'' \<notin> {Invite, Join, Leave, Ban} \<and> Leave \<noteq> ''knock'' \<and>
   MembershipUpdater (roomUpdater ''5'') 7 invited = (Inr (handle 7), invited) \<and>
   updateMembership (roomUpdater ''5'') 7 None (Some E5) [] invited =
     Panics (MembershipNotAllowed ''knock'')"
proof -
  have h: "classify None = Inr Leave" "Event.Membership E5 = Inr ''knock''"
    "''knock'' \<notin> {Invite, Join, Leave, Ban}" "Leave \<noteq> ''knock''"
    by (simp_all add: Invite_def Join_def Leave_def Ban_def)
  have o: "MembershipUpdater (roomUpdater ''5'') 7 invited = (Inr (handle 7), invited)"
    by (simp add: roomUpdater_def)
  from updateMembership_invalid_panics
         [where remove = None and oldMembership = Leave and a = E5 and newMembership = "''knock''"
            and updater = "roomUpdater ''5''" and nid = 7 and updates = "[]" and s = invited] h
  have "updateMembership (roomUpdater ''5'') 7 None (Some E5) [] invited =
       (case MembershipUpdater (roomUpdater ''5'') 7 invited of
          (Inl err, s') \<Rightarrow> Returns (([], Some err), s')
        | (Inr mu, s') \<Rightarrow> Panics (MembershipNotAllowed ''knock''))"
    by blast
  with o h show ?thesis by simp
qed

lemma readMembership_fails:
  "field = FieldAbsent \<or> field = FieldMalformed \<Longrightarrow>
   Event.Membership (eventOfBody field sender eventID stateKey) = Inl MembershipParseError"
  by (auto simp: eventOfBody_def readMembership_def)

lemma readMembership_value:
  "Event.Membership (eventOfBody (FieldValue membership) sender eventID stateKey) = Inr membership"
  by (simp add: eventOfBody_def readMembership_def)

lemma updateMembership_both:
  assumes "Event.Membership re = Inr oldMembership" "Event.Membership ae = Inr newMembership"
  shows "updateMembership updater nid (Some re) (Some ae) updates s =
     (if oldMembership = newMembership \<and> newMembership \<noteq> Join
      then Returns ((updates, None), s)
      else
        (case MembershipUpdater updater nid s of
           (Inl err, s') \<Rightarrow> Returns (([], Some err), s')
         | (Inr mu, s') \<Rightarrow>
             if newMembership = Invite
             then updateToInviteMembership mu (Some ae) updates
                    (RoomRecentEventsUpdater.RoomVersion updater s') s'
             else if newMembership = Join
             then updateToJoinMembership mu (Some ae) updates s'
             else if newMembership = Leave \<or> newMembership = Ban
             then updateToLeaveMembership mu (Some ae) newMembership updates s'
             else Panics (MembershipNotAllowed newMembership)))"
proof -
  from assms have c: "classify (Some re) = Inr oldMembership"
    "classify (Some ae) = Inr newMembership"
    by simp_all
  show ?thesis unfolding updateMembership_classified [OF c] by simp
qed

lemma example_bodies [simp]:
  "Event.Membership E7 = Inl MembershipParseError"
  "Event.Membership E8 = Inl MembershipParseError"
  by (simp_all add: E7_def E8_def eventOfBody_def readMembership_def)

text \<open>
  Claim C9. \<^verbatim>\<open>updateMembership\<close> classifies the old membership from the removed
  event and the new membership from the added event: with both events present, the
  change is skipped when the membership of the removed event equals that of the
  added event and is not join, and otherwise the handler is chosen by the membership
  of the added event and runs on the added event. Leave is the default of an absent
  event: an absent removed event behaves as a removed event whose membership is
  leave, and with an absent added event the change is skipped when the old
  membership is leave and is an error otherwise. When an event is present and
  \<^verbatim>\<open>Membership()\<close> returns an error, \<^verbatim>\<open>updateMembership\<close> returns that error with no
  records, and the loop over the changes stops there and returns that error with no
  records. In particular, for an event body whose membership field is absent or
  malformed the operation fails with the parse error and the loop returns it with
  no records.
\<close>

theorem updateMembership_classifies:
  "(Event.Membership re = Inr oldMembership \<and> Event.Membership ae = Inr newMembership \<longrightarrow>
      updateMembership updater nid (Some re) (Some ae) updates s =
        (if oldMembership = newMembership \<and> newMembership \<noteq> Join
         then Returns ((updates, None), s)
         else
           (case MembershipUpdater updater nid s of
              (Inl err, s') \<Rightarrow> Returns (([], Some err), s')
            | (Inr mu, s') \<Rightarrow>
                if newMembership = Invite
                then updateToInviteMembership mu (Some ae) updates
                       (RoomRecentEventsUpdater.RoomVersion updater s') s'
                else if newMembership = Join
                then updateToJoinMembership mu (Some ae) updates s'
                else if newMembership = Leave \<or> newMembership = Ban
                then updateToLeaveMembership mu (Some ae) newMembership updates s'
                else Panics (MembershipNotAllowed newMembership)))) \<and>
   (Event.Membership le = Inr Leave \<longrightarrow>
      updateMembership updater nid None add updates s =
      updateMembership updater nid (Some le) add updates s) \<and>
   (classify remove = Inr oldMembership \<longrightarrow>
      updateMembership updater nid remove None updates s =
        (if oldMembership = Leave then Returns ((updates, None), s)
         else Returns ((updates, Some (ErrorsNew ''add should not be nil'')), s))) \<and>
   (Event.Membership re = Inl err \<longrightarrow>
      updateMembership updater nid (Some re) add updates s = Returns (([], Some err), s)) \<and>
   (classify remove = Inr oldMembership \<and> Event.Membership ae = Inl err' \<longrightarrow>
      updateMembership updater nid remove (Some ae) updates s = Returns (([], Some err'), s)) \<and>
   (classify (sideEvent events (removedEventNID change)) = Inl err'' \<or>
    (\<exists>m. classify (sideEvent events (removedEventNID change)) = Inr m) \<and>
    classify (sideEvent events (addedEventNID change)) = Inl err'' \<longrightarrow>
      changesLoop updater events (change # changes) updates s = Returns (([], Some err''), s)) \<and>
   (field = FieldAbsent \<or> field = FieldMalformed \<longrightarrow>
      updateMembership updater nid (Some (eventOfBody field sender eventID stateKey)) add updates s =
        Returns (([], Some MembershipParseError), s)) \<and>
   (classify remove = Inr oldMembership \<and> (field = FieldAbsent \<or> field = FieldMalformed) \<longrightarrow>
      updateMembership updater nid remove (Some (eventOfBody field sender eventID stateKey))
        updates s = Returns (([], Some MembershipParseError), s)) \<and>
   ((field = FieldAbsent \<or> field = FieldMalformed) \<and>
    (sideEvent events (removedEventNID change) = Some (eventOfBody field sender eventID stateKey) \<or>
     (\<exists>m. classify (sideEvent events (removedEventNID change)) = Inr m) \<and>
     sideEvent events (addedEventNID change) = Some (eventOfBody field sender eventID stateKey)) \<longrightarrow>
      changesLoop updater events (change # changes) updates s =
        Returns (([], Some MembershipParseError), s))"
proof (intro conjI impI; (elim conjE)?)
  assume "Event.Membership re = Inr oldMembership" "Event.Membership ae = Inr newMembership"
  then show "updateMembership updater nid (Some re) (Some ae) updates s =
        (if oldMembership = newMembership \<and> newMembership \<noteq> Join
         then Returns ((updates, None), s)
         else
           (case MembershipUpdater updater nid s of
              (Inl err, s') \<Rightarrow> Returns (([], Some err), s')
            | (Inr mu, s') \<Rightarrow>
                if newMembership = Invite
                then updateToInviteMembership mu (Some ae) updates
                       (RoomRecentEventsUpdater.RoomVersion updater s') s'
                else if newMembership = Join
                then updateToJoinMembership mu (Some ae) updates s'
                else if newMembership = Leave \<or> newMembership = Ban
                then updateToLeaveMembership mu (Some ae) newMembership updates s'
                else Panics (MembershipNotAllowed newMembership)))"
    by (rule updateMembership_both)
next
  assume "Event.Membership le = Inr Leave"
  then show "updateMembership updater nid None add updates s =
      updateMembership updater nid (Some le) add updates s"
    by (simp add: updateMembership_def)
next
  assume r: "classify remove = Inr oldMembership"
  show "updateMembership updater nid remove None updates s =
        (if oldMembership = Leave then Returns ((updates, None), s)
         else Returns ((updates, Some (ErrorsNew ''add should not be nil'')), s))"
    by (simp add: updateMembership_classified [OF r, where newMembership = Leave])
next
  assume "Event.Membership re = Inl err"
  then show "updateMembership updater nid (Some re) add updates s = Returns (([], Some err), s)"
    by (simp add: updateMembership_parse_remove)
next
  assume "classify remove = Inr oldMembership" "Event.Membership ae = Inl err'"
  then show "updateMembership updater nid remove (Some ae) updates s =
      Returns (([], Some err'), s)"
    by (simp add: updateMembership_parse_add)
next
  assume "classify (sideEvent events (removedEventNID change)) = Inl err'' \<or>
    (\<exists>m. classify (sideEvent events (removedEventNID change)) = Inr m) \<and>
    classify (sideEvent events (addedEventNID change)) = Inl err''"
  then have "updateMembership updater (EventStateKeyNID change)
     (sideEvent events (removedEventNID change)) (sideEvent events (addedEventNID change))
     updates s = Returns (([], Some err''), s)"
    by (auto simp: updateMembership_parse_remove updateMembership_parse_add)
  then show "changesLoop updater events (change # changes) updates s =
      Returns (([], Some err''), s)"
    by (rule changesLoop_step_error)
next
  assume "field = FieldAbsent \<or> field = FieldMalformed"
  then have "classify (Some (eventOfBody field sender eventID stateKey)) = Inl MembershipParseError"
    by (simp add: readMembership_fails)
  then show "updateMembership updater nid (Some (eventOfBody field sender eventID stateKey)) add
      updates s = Returns (([], Some MembershipParseError), s)"
    by (rule updateMembership_parse_remove)
next
  assume r: "classify remove = Inr oldMembership" and "field = FieldAbsent \<or> field = FieldMalformed"
  then have "classify (Some (eventOfBody field sender eventID stateKey)) = Inl MembershipParseError"
    by (simp add: readMembership_fails)
  with r show "updateMembership updater nid remove (Some (eventOfBody field sender eventID stateKey))
        updates s = Returns (([], Some MembershipParseError), s)"
    by (rule updateMembership_parse_add)
next
  assume f: "field = FieldAbsent \<or> field = FieldMalformed"
    and e: "sideEvent events (removedEventNID change) =
        Some (eventOfBody field sender eventID stateKey) \<or>
     (\<exists>m. classify (sideEvent events (removedEventNID change)) = Inr m) \<and>
     sideEvent events (addedEventNID change) = Some (eventOfBody field sender eventID stateKey)"
  from f have "classify (Some (eventOfBody field sender eventID stateKey)) = Inl MembershipParseError"
    by (simp add: readMembership_fails)
  with e have "updateMembership updater (EventStateKeyNID change)
     (sideEvent events (removedEventNID change)) (sideEvent events (addedEventNID change))
     updates s = Returns (([], Some MembershipParseError), s)"
    by (auto simp: updateMembership_parse_remove updateMembership_parse_add)
  then show "changesLoop updater events (change # changes) updates s =
      Returns (([], Some MembershipParseError), s)"
    by (rule changesLoop_step_error)
qed


theorem updateMembership_classifies_witness:
  "Event.Membership E1 = Inr Invite \<and> Event.Membership E2 = Inr Join \<and>
   updateMembership (roomUpdater ''5'') 7 (Some E1) (Some E2) [] invited =
     Returns (([retireInvite ''$E1'' Join ''$E2'' ''@a:hs''], None), joined) \<and>
   updateMembership (roomUpdater ''5'') 7 (Some E2) (Some E1) [] joined =
     Returns (([newInvite E1 ''5''], None), invited) \<and>
   Event.Membership E3 = Inr Leave \<and>
   updateMembership (roomUpdater ''5'') 7 None (Some E1) [] fresh =
     updateMembership (roomUpdater ''5'') 7 (Some E3) (Some E1) [] fresh \<and>
   classify None = Inr Leave \<and>
   updateMembership (roomUpdater ''5'') 7 None None [] fresh = Returns (([], None), fresh) \<and>
   classify (Some E1) = Inr Invite \<and>
   updateMembership (roomUpdater ''5'') 7 (Some E1) None [] invited =
     Returns (([], Some (ErrorsNew ''add should not be nil'')), invited) \<and>
   Event.Membership E6 = Inl (Foreign ''missing membership key'') \<and>
   updateMembership (roomUpdater ''5'') 7 (Some E6) (Some E2) [newInvite E1 ''5''] invited =
     Returns (([], Some (Foreign ''missing membership key'')), invited) \<and>
   updateMembership (roomUpdater ''5'') 7 (Some E1) (Some E6) [newInvite E1 ''5''] invited =
     Returns (([], Some (Foreign ''missing membership key'')), invited) \<and>
   classify (sideEvent [numbered 6 E6]
      (removedEventNID (mkStateChange \<lparr>EventTypeNID = 5, EventStateKeyNID = 7\<rparr> 6 0))) =
     Inl (Foreign ''missing membership key'') \<and>
   changesLoop (roomUpdater ''5'') [numbered 6 E6]
      [mkStateChange \<lparr>EventTypeNID = 5, EventStateKeyNID = 7\<rparr> 6 0] [newInvite E1 ''5''] invited =
     Returns (([], Some (Foreign ''missing membership key'')), invited) \<and>
   updateMembership (roomUpdater ''5'') 7 (Some E7) (Some E2) [newInvite E1 ''5''] invited =
     Returns (([], Some MembershipParseError), invited) \<and>
   updateMembership (roomUpdater ''5'') 7 (Some E1) (Some E8) [newInvite E1 ''5''] invited =
     Returns (([], Some MembershipParseError), invited) \<and>
   sideEvent [numbered 1 E1, numbered 8 E8]
      (addedEventNID (mkStateChange \<lparr>EventTypeNID = 5, EventStateKeyNID = 7\<rparr> 1 8)) = Some E8 \<and>
   classify (sideEvent [numbered 1 E1, numbered 8 E8]
      (removedEventNID (mkStateChange \<lparr>EventTypeNID = 5, EventStateKeyNID = 7\<rparr> 1 8))) =
     Inr Invite \<and>
   changesLoop (roomUpdater ''5'') [numbered 1 E1, numbered 8 E8]
      [mkStateChange \<lparr>EventTypeNID = 5, EventStateKeyNID = 7\<rparr> 1 8] [newInvite E1 ''5''] invited =
     Returns (([], Some MembershipParseError), invited)"
proof -
  let ?u = "roomUpdater ''5''"
  let ?c6 = "mkStateChange \<lparr>EventTypeNID = 5, EventStateKeyNID = 7\<rparr> 6 0"
  let ?c8 = "mkStateChange \<lparr>EventTypeNID = 5, EventStateKeyNID = 7\<rparr> 1 8"
  let ?miss = "Foreign ''missing membership key''"
  have h: "Event.Membership E1 = Inr Invite" "Event.Membership E2 = Inr Join"
    "Event.Membership E3 = Inr Leave" "classify None = Inr Leave" "classify (Some E1) = Inr Invite"
    "Event.Membership E6 = Inl ?miss"
    "classify (sideEvent [numbered 6 E6] (removedEventNID ?c6)) = Inl ?miss"
    "sideEvent [numbered 1 E1, numbered 8 E8] (addedEventNID ?c8) = Some E8"
    "classify (sideEvent [numbered 1 E1, numbered 8 E8] (removedEventNID ?c8)) = Inr Invite"
    by (simp_all add: sideEvent_def lookup_def numbered_def)
  have b: "E7 = eventOfBody FieldAbsent ''@a:hs'' ''$E7'' (Some ''@a:hs'')"
    "E8 = eventOfBody FieldMalformed ''@a:hs'' ''$E8'' (Some ''@a:hs'')"
    by (simp_all add: E7_def E8_def)
  note t = updateMembership_classifies [where updater = ?u and nid = 7]
  note t [where re = E1 and oldMembership = Invite and ae = E2 and newMembership = Join
            and updates = "[]" and s = invited, THEN conjunct1, THEN mp, OF conjI [OF h(1) h(2)]]
  then have 1: "updateMembership ?u 7 (Some E1) (Some E2) [] invited =
     Returns (([retireInvite ''$E1'' Join ''$E2'' ''@a:hs''], None), joined)"
    by (simp add: roomUpdater_def updateToJoinMembership_def setToJoin_def invited_def joined_def
        fresh_def retireInvite_def E2_def)
  note t [where re = E2 and oldMembership = Join and ae = E1 and newMembership = Invite
            and updates = "[]" and s = joined, THEN conjunct1, THEN mp, OF conjI [OF h(2) h(1)]]
  then have 2: "updateMembership ?u 7 (Some E2) (Some E1) [] joined =
     Returns (([newInvite E1 ''5''], None), invited)"
    by (simp add: roomUpdater_def updateToInviteMembership_def setToInvite_def invited_def
        joined_def fresh_def newInvite_def E1_def)
  from t [where le = E3 and add = "Some E1" and updates = "[]" and s = fresh] h
  have 3: "updateMembership ?u 7 None (Some E1) [] fresh =
     updateMembership ?u 7 (Some E3) (Some E1) [] fresh"
    by blast
  from t [where remove = None and oldMembership = Leave and updates = "[]" and s = fresh] h
  have 4: "updateMembership ?u 7 None None [] fresh = Returns (([], None), fresh)"
    by simp
  from t [where remove = "Some E1" and oldMembership = Invite and updates = "[]" and s = invited] h
  have 5: "updateMembership ?u 7 (Some E1) None [] invited =
     Returns (([], Some (ErrorsNew ''add should not be nil'')), invited)"
    by simp
  from t [where re = E6 and err = ?miss and add = "Some E2"
            and updates = "[newInvite E1 ''5'']" and s = invited] h
  have 6: "updateMembership ?u 7 (Some E6) (Some E2) [newInvite E1 ''5''] invited =
     Returns (([], Some ?miss), invited)"
    by blast
  from t [where remove = "Some E1" and oldMembership = Invite and ae = E6 and err' = ?miss
            and updates = "[newInvite E1 ''5'']" and s = invited] h
  have 7: "updateMembership ?u 7 (Some E1) (Some E6) [newInvite E1 ''5''] invited =
     Returns (([], Some ?miss), invited)"
    by blast
  from t [where events = "[numbered 6 E6]" and change = ?c6 and err'' = ?miss and changes = "[]"
            and updates = "[newInvite E1 ''5'']" and s = invited] h
  have 8: "changesLoop ?u [numbered 6 E6] [?c6] [newInvite E1 ''5''] invited =
     Returns (([], Some ?miss), invited)"
    by blast
  from t [where field = FieldAbsent and sender = "''@a:hs''" and eventID = "''$E7''"
            and stateKey = "Some ''@a:hs''" and add = "Some E2"
            and updates = "[newInvite E1 ''5'']" and s = invited]
  have 9: "updateMembership ?u 7 (Some E7) (Some E2) [newInvite E1 ''5''] invited =
     Returns (([], Some MembershipParseError), invited)"
    unfolding b by blast
  from t [where field = FieldMalformed and sender = "''@a:hs''" and eventID = "''$E8''"
            and stateKey = "Some ''@a:hs''" and remove = "Some E1" and oldMembership = Invite
            and updates = "[newInvite E1 ''5'']" and s = invited] h
  have 10: "updateMembership ?u 7 (Some E1) (Some E8) [newInvite E1 ''5''] invited =
     Returns (([], Some MembershipParseError), invited)"
    unfolding b by blast
  from t [where field = FieldMalformed and sender = "''@a:hs''" and eventID = "''$E8''"
            and stateKey = "Some ''@a:hs''" and events = "[numbered 1 E1, numbered 8 E8]"
            and change = ?c8 and changes = "[]"
            and updates = "[newInvite E1 ''5'']" and s = invited] h
  have 11: "changesLoop ?u [numbered 1 E1, numbered 8 E8] [?c8] [newInvite E1 ''5''] invited =
     Returns (([], Some MembershipParseError), invited)"
    unfolding b by blast
  from h 1 2 3 4 5 6 7 8 9 10 11 show ?thesis by blast
qed

section \<open>Properties of the whole reconciliation\<close>

lemma changesLoop_error_nil:
  "changesLoop updater events changes updates s = Returns ((updates', Some err), s') \<Longrightarrow>
   updates' = []"
proof (induction changes arbitrary: updates s)
  case Nil
  then show ?case by simp
next
  case (Cons change changes)
  then show ?case
    by (auto split: run.splits prod.splits option.splits)
qed

lemma changesLoop_append:
  "changesLoop updater events before updates s = Returns ((updates1, None), s1) \<Longrightarrow>
   changesLoop updater events (before @ after) updates s =
   changesLoop updater events after updates1 s1"
proof (induction before arbitrary: updates s)
  case Nil
  then show ?case by simp
next
  case (Cons change before)
  then show ?case
    by (auto split: run.splits prod.splits option.splits)
qed

lemma changesLoop_abort:
  assumes "changesLoop updater events before updates s = Returns ((updates1, None), s1)"
    and "updateMembership updater (EventStateKeyNID change)
           (sideEvent events (removedEventNID change)) (sideEvent events (addedEventNID change))
           updates1 s1 = Returns ((updates2, Some err), s2)"
  shows "changesLoop updater events (before @ change # after) updates s =
           Returns (([], Some err), s2)"
  using changesLoop_append [OF assms(1)] changesLoop_step_error [OF assms(2)] by simp

lemma updateMemberships_loaded:
  "Events db (collectEventNIDs (membershipChanges m ord removed added) []) s = Inr events \<Longrightarrow>
   updateMemberships m ord db updater removed added s =
   changesLoop updater events (membershipChanges m ord removed added) [] s"
  by (simp add: updateMemberships_def Let_def)

lemma updateMemberships_load_error:
  "Events db (collectEventNIDs (membershipChanges m ord removed added) []) s = Inl err \<Longrightarrow>
   updateMemberships m ord db updater removed added s = Returns (([], Some err), s)"
  by (simp add: updateMemberships_def Let_def)

lemma updateMemberships_error_nil:
  "updateMemberships m ord db updater removed added s = Returns ((updates, Some err), s') \<Longrightarrow>
   updates = []"
  by (auto simp: updateMemberships_def Let_def split: sum.splits dest: changesLoop_error_nil)

lemma updateMembership_open_error:
  assumes "classify remove = Inr oldMembership" "Event.Membership a = Inr newMembership"
    and "oldMembership \<noteq> newMembership \<or> newMembership = Join"
    and "MembershipUpdater updater nid s = (Inl err, s')"
  shows "updateMembership updater nid remove (Some a) updates s = Returns (([], Some err), s')"
proof -
  from assms(2) have c: "classify (Some a) = Inr newMembership" by simp
  show ?thesis
    unfolding updateMembership_classified [OF assms(1) c] using assms(3,4) by auto
qed

lemma updateMembership_opened:
  assumes "classify remove = Inr oldMembership" "Event.Membership a = Inr newMembership"
    and "oldMembership \<noteq> newMembership \<or> newMembership = Join"
    and "MembershipUpdater updater nid s = (Inr mu, s1)"
  shows "updateMembership updater nid remove (Some a) updates s =
           (if newMembership = Invite
            then updateToInviteMembership mu (Some a) updates
                   (RoomRecentEventsUpdater.RoomVersion updater s1) s1
            else if newMembership = Join
            then updateToJoinMembership mu (Some a) updates s1
            else if newMembership = Leave \<or> newMembership = Ban
            then updateToLeaveMembership mu (Some a) newMembership updates s1
            else Panics (MembershipNotAllowed newMembership))"
proof -
  from assms(2) have c: "classify (Some a) = Inr newMembership" by simp
  show ?thesis
    unfolding updateMembership_classified [OF assms(1) c] using assms(3,4) by auto
qed

lemma updateMembership_invite_error:
  assumes "classify remove = Inr oldMembership" "Event.Membership a = Inr Invite"
    and "oldMembership \<noteq> Invite"
    and "MembershipUpdater updater nid s = (Inr mu, s1)"
    and "SetToInvite mu a s1 = (Inl err, s2)"
  shows "updateMembership updater nid remove (Some a) updates s = Returns (([], Some err), s2)"
  using assms(3) invite_error [OF assms(5)]
  by (simp add: updateMembership_opened [OF assms(1,2) _ assms(4)])

lemma updateMembership_join_error:
  assumes "classify remove = Inr oldMembership" "Event.Membership a = Inr Join"
    and "MembershipUpdater updater nid s = (Inr mu, s1)"
    and "SetToJoin mu (Sender a) (Event.EventID a) (IsJoin mu s1) s1 = (Inl err, s2)"
  shows "updateMembership updater nid remove (Some a) updates s = Returns (([], Some err), s2)"
  using join_error [OF assms(4)]
  by (simp add: updateMembership_opened [OF assms(1,2) _ assms(3)])

lemma updateMembership_leave_error:
  assumes "classify remove = Inr oldMembership" "Event.Membership a = Inr newMembership"
    and "newMembership = Leave \<or> newMembership = Ban" "oldMembership \<noteq> newMembership"
    and "MembershipUpdater updater nid s = (Inr mu, s1)"
    and "\<not> IsLeave mu s1" "SetToLeave mu (Sender a) (Event.EventID a) s1 = (Inl err, s2)"
  shows "updateMembership updater nid remove (Some a) updates s = Returns (([], Some err), s2)"
  using assms(3,4) leave_error [OF assms(6,7)]
  by (auto simp: updateMembership_opened [OF assms(1,2) _ assms(5)])

lemma membershipChanges_example:
  "membershipChanges 5 byStateKey [] [memberEntry 7 1, memberEntry 8 6] =
     [mkStateChange \<lparr>EventTypeNID = 5, EventStateKeyNID = 7\<rparr> 0 1,
      mkStateChange \<lparr>EventTypeNID = 5, EventStateKeyNID = 8\<rparr> 0 6]"
  by (simp add: membershipChanges_def pairUpChanges_def rangeMap_def addStep_def memberEntry_def
      tupleOf_def mkStateChange_def byStateKey_def)

lemmas example_defs =
  updateMembership_def updateToInviteMembership_def updateToJoinMembership_def
  updateToLeaveMembership_def roomUpdater_def setToInvite_def setToJoin_def setToLeave_def
  fresh_def invited_def joined_def gone_def sideEvent_def lookup_def numbered_def
  mkStateChange_def newInvite_def retireInvite_def eventStore_def
  E1_def E2_def E3_def E4_def E5_def E6_def Let_def

text \<open>
  Claim C6. Whenever \<^verbatim>\<open>updateMemberships\<close> returns an error it returns it with no
  records, and every failing step makes it return an error. A failed load of the
  events is returned at once. When the changes before some change were processed
  without error, whatever records they produced, and \<^verbatim>\<open>updateMembership\<close> returns an
  error for that change, then \<^verbatim>\<open>updateMemberships\<close> returns that error with no
  records. And \<^verbatim>\<open>updateMembership\<close> returns an error when reading a membership fails,
  when the added event is missing, when opening the handle fails and when
  \<^verbatim>\<open>SetToInvite\<close>, \<^verbatim>\<open>SetToJoin\<close> or \<^verbatim>\<open>SetToLeave\<close> fails.
\<close>

theorem updateMemberships_all_or_nothing:
  "(updateMemberships m ord db updater removed added s = Returns ((updates, Some err), s') \<longrightarrow>
      updates = []) \<and>
   (Events db (collectEventNIDs (membershipChanges m ord removed added) []) s = Inl err \<longrightarrow>
      updateMemberships m ord db updater removed added s = Returns (([], Some err), s)) \<and>
   (Events db (collectEventNIDs (membershipChanges m ord removed added) []) s = Inr events \<and>
    membershipChanges m ord removed added = before @ change # after \<and>
    changesLoop updater events before [] s = Returns ((updates1, None), s1) \<and>
    updateMembership updater (EventStateKeyNID change)
      (sideEvent events (removedEventNID change)) (sideEvent events (addedEventNID change))
      updates1 s1 = Returns ((updates2, Some err), s2) \<longrightarrow>
      updateMemberships m ord db updater removed added s = Returns (([], Some err), s2)) \<and>
   (classify remove = Inl err \<or> classify remove = Inr oldMembership \<and> classify add = Inl err \<longrightarrow>
      updateMembership updater nid remove add updates s = Returns (([], Some err), s)) \<and>
   (classify remove = Inr oldMembership \<and> oldMembership \<noteq> Leave \<longrightarrow>
      updateMembership updater nid remove None updates s =
        Returns ((updates, Some (ErrorsNew ''add should not be nil'')), s)) \<and>
   (classify remove = Inr oldMembership \<and> Event.Membership a = Inr newMembership \<and>
    (oldMembership \<noteq> newMembership \<or> newMembership = Join) \<and>
    MembershipUpdater updater nid s = (Inl err, s1) \<longrightarrow>
      updateMembership updater nid remove (Some a) updates s = Returns (([], Some err), s1)) \<and>
   (classify remove = Inr oldMembership \<and> Event.Membership a = Inr Invite \<and>
    oldMembership \<noteq> Invite \<and> MembershipUpdater updater nid s = (Inr mu, s1) \<and>
    SetToInvite mu a s1 = (Inl err, s2) \<longrightarrow>
      updateMembership updater nid remove (Some a) updates s = Returns (([], Some err), s2)) \<and>
   (classify remove = Inr oldMembership \<and> Event.Membership a = Inr Join \<and>
    MembershipUpdater updater nid s = (Inr mu, s1) \<and>
    SetToJoin mu (Sender a) (Event.EventID a) (IsJoin mu s1) s1 = (Inl err, s2) \<longrightarrow>
      updateMembership updater nid remove (Some a) updates s = Returns (([], Some err), s2)) \<and>
   (classify remove = Inr oldMembership \<and> Event.Membership a = Inr newMembership \<and>
    (newMembership = Leave \<or> newMembership = Ban) \<and> oldMembership \<noteq> newMembership \<and>
    MembershipUpdater updater nid s = (Inr mu, s1) \<and> \<not> IsLeave mu s1 \<and>
    SetToLeave mu (Sender a) (Event.EventID a) s1 = (Inl err, s2) \<longrightarrow>
      updateMembership updater nid remove (Some a) updates s = Returns (([], Some err), s2))"
proof (intro conjI impI; (elim conjE)?)
  assume "updateMemberships m ord db updater removed added s = Returns ((updates, Some err), s')"
  then show "updates = []" by (rule updateMemberships_error_nil)
next
  assume "Events db (collectEventNIDs (membershipChanges m ord removed added) []) s = Inl err"
  then show "updateMemberships m ord db updater removed added s = Returns (([], Some err), s)"
    by (rule updateMemberships_load_error)
next
  assume l: "Events db (collectEventNIDs (membershipChanges m ord removed added) []) s = Inr events"
    and c: "membershipChanges m ord removed added = before @ change # after"
    and b: "changesLoop updater events before [] s = Returns ((updates1, None), s1)"
    and u: "updateMembership updater (EventStateKeyNID change)
      (sideEvent events (removedEventNID change)) (sideEvent events (addedEventNID change))
      updates1 s1 = Returns ((updates2, Some err), s2)"
  show "updateMemberships m ord db updater removed added s = Returns (([], Some err), s2)"
    unfolding updateMemberships_loaded [OF l] c by (rule changesLoop_abort [OF b u])
next
  assume "classify remove = Inl err \<or> classify remove = Inr oldMembership \<and> classify add = Inl err"
  then show "updateMembership updater nid remove add updates s = Returns (([], Some err), s)"
    by (auto simp: updateMembership_parse_remove updateMembership_parse_add)
next
  assume "classify remove = Inr oldMembership" "oldMembership \<noteq> Leave"
  then show "updateMembership updater nid remove None updates s =
        Returns ((updates, Some (ErrorsNew ''add should not be nil'')), s)"
    by (rule updateMembership_no_add)
next
  assume "classify remove = Inr oldMembership" "Event.Membership a = Inr newMembership"
    "oldMembership \<noteq> newMembership \<or> newMembership = Join"
    "MembershipUpdater updater nid s = (Inl err, s1)"
  then show "updateMembership updater nid remove (Some a) updates s = Returns (([], Some err), s1)"
    by (rule updateMembership_open_error)
next
  assume "classify remove = Inr oldMembership" "Event.Membership a = Inr Invite"
    "oldMembership \<noteq> Invite" "MembershipUpdater updater nid s = (Inr mu, s1)"
    "SetToInvite mu a s1 = (Inl err, s2)"
  then show "updateMembership updater nid remove (Some a) updates s = Returns (([], Some err), s2)"
    by (rule updateMembership_invite_error)
next
  assume "classify remove = Inr oldMembership" "Event.Membership a = Inr Join"
    "MembershipUpdater updater nid s = (Inr mu, s1)"
    "SetToJoin mu (Sender a) (Event.EventID a) (IsJoin mu s1) s1 = (Inl err, s2)"
  then show "updateMembership updater nid remove (Some a) updates s = Returns (([], Some err), s2)"
    by (rule updateMembership_join_error)
next
  assume "classify remove = Inr oldMembership" "Event.Membership a = Inr newMembership"
    "newMembership = Leave \<or> newMembership = Ban" "oldMembership \<noteq> newMembership"
    "MembershipUpdater updater nid s = (Inr mu, s1)" "\<not> IsLeave mu s1"
    "SetToLeave mu (Sender a) (Event.EventID a) s1 = (Inl err, s2)"
  then show "updateMembership updater nid remove (Some a) updates s = Returns (([], Some err), s2)"
    by (rule updateMembership_leave_error)
qed

theorem updateMemberships_all_or_nothing_witness:
  "Events (brokenStore (Foreign ''load''))
     (collectEventNIDs (membershipChanges 5 byStateKey [] [memberEntry 7 1]) []) fresh =
     Inl (Foreign ''load'') \<and>
   updateMemberships 5 byStateKey (brokenStore (Foreign ''load'')) (roomUpdater ''5'')
     [] [memberEntry 7 1] fresh = Returns (([], Some (Foreign ''load'')), fresh) \<and>
   changesLoop (roomUpdater ''5'') [numbered 1 E1, numbered 6 E6]
     [mkStateChange \<lparr>EventTypeNID = 5, EventStateKeyNID = 7\<rparr> 0 1] [] fresh =
     Returns (([newInvite E1 ''5''], None), invited) \<and>
   updateMemberships 5 byStateKey (eventStore [numbered 1 E1, numbered 6 E6]) (roomUpdater ''5'')
     [] [memberEntry 7 1, memberEntry 8 6] fresh =
     Returns (([], Some (Foreign ''missing membership key'')), invited) \<and>
   updateMembership (roomUpdater ''5'') 8 None (Some E6) [newInvite E1 ''5''] invited =
     Returns (([], Some (Foreign ''missing membership key'')), invited) \<and>
   updateMembership (roomUpdater ''5'') 7 (Some E2) None [newInvite E1 ''5''] joined =
     Returns (([newInvite E1 ''5''], Some (ErrorsNew ''add should not be nil'')), joined) \<and>
   updateMembership (brokenUpdater (Foreign ''open'')) 7 None (Some E1) [] () =
     Returns (([], Some (Foreign ''open'')), ()) \<and>
   updateMembership (flakyUpdater False (Foreign ''write'')) 7 None (Some E1) [] () =
     Returns (([], Some (Foreign ''write'')), ()) \<and>
   updateMembership (flakyUpdater True (Foreign ''write'')) 7 (Some E2) (Some E2) [] () =
     Returns (([], Some (Foreign ''write'')), ()) \<and>
   updateMembership (flakyUpdater False (Foreign ''write'')) 7 (Some E2) (Some E4) [] () =
     Returns (([], Some (Foreign ''write'')), ())"
proof -
  let ?u = "roomUpdater ''5''"
  let ?events = "[numbered 1 E1, numbered 6 E6]"
  let ?c7 = "mkStateChange \<lparr>EventTypeNID = 5, EventStateKeyNID = 7\<rparr> 0 1"
  let ?c8 = "mkStateChange \<lparr>EventTypeNID = 5, EventStateKeyNID = 8\<rparr> 0 6"
  let ?miss = "Foreign ''missing membership key''"
  let ?w = "Foreign ''write''"
  note t = updateMemberships_all_or_nothing
  have load: "Events (brokenStore (Foreign ''load''))
     (collectEventNIDs (membershipChanges 5 byStateKey [] [memberEntry 7 1]) []) fresh =
     Inl (Foreign ''load'')"
    by (simp add: brokenStore_def)
  from t [where db = "brokenStore (Foreign ''load'')" and err = "Foreign ''load''" and m = 5
            and ord = byStateKey and removed = "[]" and added = "[memberEntry 7 1]" and s = fresh
            and updater = ?u] load
  have 1: "updateMemberships 5 byStateKey (brokenStore (Foreign ''load'')) ?u
     [] [memberEntry 7 1] fresh = Returns (([], Some (Foreign ''load'')), fresh)"
    by blast
  have changes: "membershipChanges 5 byStateKey [] [memberEntry 7 1, memberEntry 8 6] =
      [?c7] @ ?c8 # []"
    by (simp add: membershipChanges_example)
  have loaded: "Events (eventStore ?events)
      (collectEventNIDs (membershipChanges 5 byStateKey [] [memberEntry 7 1, memberEntry 8 6]) [])
      fresh = Inr ?events"
    by (simp add: membershipChanges_example eventStore_def numbered_def mkStateChange_def)
  have before: "changesLoop ?u ?events [?c7] [] fresh = Returns (([newInvite E1 ''5''], None), invited)"
    by (simp add: example_defs)
  have step: "updateMembership ?u (EventStateKeyNID ?c8)
      (sideEvent ?events (removedEventNID ?c8)) (sideEvent ?events (addedEventNID ?c8))
      [newInvite E1 ''5''] invited = Returns (([], Some ?miss), invited)"
    by (simp add: example_defs)
  from t [where db = "eventStore ?events" and m = 5 and ord = byStateKey and removed = "[]"
            and added = "[memberEntry 7 1, memberEntry 8 6]" and s = fresh and updater = ?u
            and events = ?events and before = "[?c7]" and change = ?c8 and after = "[]"
            and ?updates1.0 = "[newInvite E1 ''5'']" and ?s1.0 = invited and ?updates2.0 = "[]"
            and err = ?miss and ?s2.0 = invited] loaded changes before step
  have 2: "updateMemberships 5 byStateKey (eventStore ?events) ?u
     [] [memberEntry 7 1, memberEntry 8 6] fresh = Returns (([], Some ?miss), invited)"
    by blast
  have c: "classify None = Inr Leave" "classify (Some E6) = Inl ?miss"
    "classify (Some E2) = Inr Join" "Join \<noteq> Leave"
    "Event.Membership E1 = Inr Invite" "Leave \<noteq> Invite"
    "Event.Membership E2 = Inr Join" "Event.Membership E4 = Inr Ban" "Join \<noteq> Ban"
    by simp_all
  from t [where remove = None and oldMembership = Leave and add = "Some E6" and err = ?miss
            and updater = ?u and nid = 8 and updates = "[newInvite E1 ''5'']" and s = invited] c
  have 3: "updateMembership ?u 8 None (Some E6) [newInvite E1 ''5''] invited =
     Returns (([], Some ?miss), invited)"
    by blast
  from t [where remove = "Some E2" and oldMembership = Join
            and updater = ?u and nid = 7 and updates = "[newInvite E1 ''5'']" and s = joined] c
  have 4: "updateMembership ?u 7 (Some E2) None [newInvite E1 ''5''] joined =
     Returns (([newInvite E1 ''5''], Some (ErrorsNew ''add should not be nil'')), joined)"
    by blast
  have o: "MembershipUpdater (brokenUpdater (Foreign ''open'')) 7 () = (Inl (Foreign ''open''), ())"
    by (simp add: brokenUpdater_def)
  from t [where remove = None and oldMembership = Leave and a = E1 and newMembership = Invite
            and updater = "brokenUpdater (Foreign ''open'')" and nid = 7 and s = "()"
            and err = "Foreign ''open''" and ?s1.0 = "()" and updates = "[]"] c o
  have 5: "updateMembership (brokenUpdater (Foreign ''open'')) 7 None (Some E1) [] () =
     Returns (([], Some (Foreign ''open'')), ())"
    by blast
  have f: "MembershipUpdater (flakyUpdater False ?w) 7 () = (Inr (brokenHandle False ?w), ())"
    "MembershipUpdater (flakyUpdater True ?w) 7 () = (Inr (brokenHandle True ?w), ())"
    "SetToInvite (brokenHandle False ?w) E1 () = (Inl ?w, ())"
    "SetToJoin (brokenHandle True ?w) (Sender E2) (Event.EventID E2)
       (IsJoin (brokenHandle True ?w) ()) () = (Inl ?w, ())"
    "\<not> IsLeave (brokenHandle False ?w) ()"
    "SetToLeave (brokenHandle False ?w) (Sender E4) (Event.EventID E4) () = (Inl ?w, ())"
    by (simp_all add: flakyUpdater_def brokenHandle_def)
  from t [where remove = None and oldMembership = Leave and a = E1
            and updater = "flakyUpdater False ?w" and nid = 7 and s = "()"
            and mu = "brokenHandle False ?w" and err = ?w and ?s1.0 = "()" and ?s2.0 = "()"
            and updates = "[]"] c f
  have 6: "updateMembership (flakyUpdater False ?w) 7 None (Some E1) [] () =
     Returns (([], Some ?w), ())"
    by blast
  from t [where remove = "Some E2" and oldMembership = Join and a = E2
            and updater = "flakyUpdater True ?w" and nid = 7 and s = "()"
            and mu = "brokenHandle True ?w" and err = ?w and ?s1.0 = "()" and ?s2.0 = "()"
            and updates = "[]"] c f
  have 7: "updateMembership (flakyUpdater True ?w) 7 (Some E2) (Some E2) [] () =
     Returns (([], Some ?w), ())"
    by blast
  from t [where remove = "Some E2" and oldMembership = Join and a = E4 and newMembership = Ban
            and updater = "flakyUpdater False ?w" and nid = 7 and s = "()"
            and mu = "brokenHandle False ?w" and err = ?w and ?s1.0 = "()" and ?s2.0 = "()"
            and updates = "[]"] c f
  have 8: "updateMembership (flakyUpdater False ?w) 7 (Some E2) (Some E4) [] () =
     Returns (([], Some ?w), ())"
    by blast
  from load 1 before 2 3 4 5 6 7 8 show ?thesis by blast
qed

section \<open>Properties of the choice of the storage engine\<close>

text \<open>
  Claim C10. For every data source name, \<^verbatim>\<open>NewDatabase\<close> opens a sqlite3 database
  exactly when the name parses as a URL whose scheme is \<^verbatim>\<open>file\<close>; for every other
  scheme, \<^verbatim>\<open>postgres\<close> among them, and for a name that does not parse, it opens a
  postgres database with the name and the properties. The result is always the
  result of one of the two constructors: the dispatch adds no error of its own.
\<close>

theorem NewDatabase_dispatch:
  "NewDatabase parse dataSourceName dbProperties =
     (if \<exists>uri. parse dataSourceName = Inr uri \<and> Scheme uri = ''file''
      then Sqlite3NewDatabase dataSourceName
      else PostgresNewDatabase dataSourceName dbProperties)"
  by (auto simp: NewDatabase_def split: sum.splits)

theorem NewDatabase_dispatch_witness:
  "NewDatabase exampleParse ''file:federationsender.db'' () =
     Sqlite3NewDatabase ''file:federationsender.db'' \<and>
   NewDatabase exampleParse ''postgres://dendrite@localhost/fs'' () =
     PostgresNewDatabase ''postgres://dendrite@localhost/fs'' () \<and>
   NewDatabase exampleParse ''mysql://localhost/fs'' () =
     PostgresNewDatabase ''mysql://localhost/fs'' () \<and>
   exampleParse ''%zz'' = Inl (Foreign ''invalid URL escape'') \<and>
   NewDatabase exampleParse ''%zz'' () = PostgresNewDatabase ''%zz'' ()"
  using NewDatabase_dispatch [of exampleParse "''file:federationsender.db''" "()"]
    NewDatabase_dispatch [of exampleParse "''postgres://dendrite@localhost/fs''" "()"]
    NewDatabase_dispatch [of exampleParse "''mysql://localhost/fs''" "()"]
    NewDatabase_dispatch [of exampleParse "''%zz''" "()"]
  by (simp add: exampleParse_def)

section \<open>The scenario of the spec\<close>

text \<open>
  The scenario of section 8 of the spec: the participant is invited by E1, joins by
  E2, which retires the invite, and leaves by E3, which retires nothing.
\<close>

lemma end_to_end:
  "updateMemberships 5 byStateKey (eventStore [numbered 1 E1, numbered 2 E2, numbered 3 E3])
     (roomUpdater ''5'') [] [memberEntry 7 1] fresh =
     Returns (([newInvite E1 ''5''], None), invited)"
  "updateMemberships 5 byStateKey (eventStore [numbered 1 E1, numbered 2 E2, numbered 3 E3])
     (roomUpdater ''5'') [memberEntry 7 1] [memberEntry 7 2] invited =
     Returns (([retireInvite ''$E1'' Join ''$E2'' ''@a:hs''], None), joined)"
  "updateMemberships 5 byStateKey (eventStore [numbered 1 E1, numbered 2 E2, numbered 3 E3])
     (roomUpdater ''5'') [memberEntry 7 2] [memberEntry 7 3] joined =
     Returns (([], None), gone ''$E3'')"
  by (simp_all add: updateMemberships_def membershipChanges_def pairUpChanges_def rangeMap_def
      addStep_def removeStep_def memberEntry_def tupleOf_def byStateKey_def example_defs)

end
